theory Spec2Isabelle
  imports Main "HOL-Library.Word" "HOL-Library.Monad_Syntax"
begin

unbundle bit_operations_syntax

section \<open>Data model of mini-project-clock.c\<close>

text \<open>
  The program is written for the XC8 compiler on a PIC18F8722 (the \<^verbatim>\<open>interrupt\<close> and
  \<^verbatim>\<open>low_priority\<close> function qualifiers are XC8's). There a plain \<^verbatim>\<open>char\<close> is an unsigned
  8-bit integer and \<^verbatim>\<open>unsigned int\<close> is 16 bits wide; the program relies on the former when
  it tests \<^verbatim>\<open>(Switches() >> 7) == 1\<close> and when it matches a \<^verbatim>\<open>char\<close> against the case label
  \<^verbatim>\<open>0x80\<close>. So \<^verbatim>\<open>char\<close> is \<^typ>\<open>8 word\<close> and \<^verbatim>\<open>unsigned int\<close> is \<^typ>\<open>16 word\<close>: addition and
  subtraction wrap, comparison is unsigned.
\<close>

type_synonym c_char = "8 word"
type_synonym c_uint = "16 word"

record TIME =
  hrs :: c_char
  mins :: c_char
  secs :: c_char

record DATE =
  day :: c_char
  month :: c_char
  year_short :: c_char
  year_long :: c_uint

text \<open>
  The global variables of the program (lines 224--240), the special function registers a
  modelled function writes, and the input pins. An input port is volatile: what a read
  returns is chosen by the environment. \<open>PORTx_env n\<close> is the value port x shows to the
  \<open>n\<close>-th port read the program performs, and \<open>reads\<close> counts the reads performed so far.
  The two interrupt routines are functions on the state like the others. A main-loop
  function is modelled as it runs with no interrupt in between, except for the debounce
  wait, which only Timer0's interrupt can end.
\<close>

record globals =
  MainTime :: TIME
  Alarm1Time :: TIME
  Alarm2Time :: TIME
  MainDate :: DATE
  Alarm1Date :: DATE
  Alarm2Date :: DATE
  disp_index :: c_char
  Alarm1On :: c_char
  Alarm2On :: c_char
  multiplex_index :: c_char
  ms_count0 :: c_uint
  ms_count1 :: c_uint
  ms_count2 :: c_uint
  ms_count3 :: c_uint
  disp_U1 :: c_char
  disp_U2 :: c_char
  disp_LEDS :: c_char
  dp_mask :: c_char
  day_rollover :: c_char
  mins_rollover :: c_char
  PIE1_TMR1IE :: bool
  LATH_LH0 :: bool
  LATH_LH1 :: bool
  LATA_LA4 :: bool
  LATF :: c_char
  PORTB_env :: "nat \<Rightarrow> c_char"
  PORTC_env :: "nat \<Rightarrow> c_char"
  PORTH_env :: "nat \<Rightarrow> c_char"
  PORTJ_env :: "nat \<Rightarrow> c_char"
  reads :: nat

text \<open>
  A constant array read at a \<^verbatim>\<open>char\<close> index. Reading past the end is undefined in C;
  the model returns \<open>None\<close> there.
\<close>

definition c_index :: "'a list \<Rightarrow> c_char \<Rightarrow> 'a option" where
  "c_index xs i = (if unat i < length xs then Some (xs ! unat i) else None)"

definition DaysInMonth :: "c_char list" where
  "DaysInMonth = [0, 31, 28, 31, 30, 31, 30, 31, 31, 30, 31, 30, 31]"

definition DaysInMonthLeap :: "c_char list" where
  "DaysInMonthLeap = [0, 31, 29, 31, 30, 31, 30, 31, 31, 30, 31, 30, 31]"

section \<open>The seconds clock\<close>

text \<open>\<^verbatim>\<open>Timer1_isr\<close>, lines 366--374.\<close>

definition Timer1_isr :: "globals \<Rightarrow> globals" where
  "Timer1_isr s =
     (let s1 = (if secs (MainTime s) < 59
                then s\<lparr>MainTime := (MainTime s)\<lparr>secs := secs (MainTime s) + 1\<rparr>\<rparr>
                else s\<lparr>MainTime := (MainTime s)\<lparr>secs := 0\<rparr>,
                       mins_rollover := mins_rollover s + 1\<rparr>)
      in s1\<lparr>dp_mask := dp_mask s1 XOR push_bit 2 1\<rparr>)"

section \<open>The calendar engine\<close>

text \<open>\<^verbatim>\<open>CalcTime\<close>, lines 647--663. \<^verbatim>\<open>mins_temp\<close> is a \<^verbatim>\<open>char\<close>.\<close>

definition CalcTime :: "globals \<Rightarrow> globals" where
  "CalcTime s =
     (let mins_temp = mins (MainTime s) + mins_rollover s;
          s1 = (if mins_temp < 59
                then s\<lparr>MainTime := (MainTime s)\<lparr>mins := mins_temp\<rparr>\<rparr>
                else (let s2 = s\<lparr>MainTime := (MainTime s)\<lparr>mins := mins_temp - 60\<rparr>\<rparr>
                      in if hrs (MainTime s2) < 23
                         then s2\<lparr>MainTime := (MainTime s2)\<lparr>hrs := hrs (MainTime s2) + 1\<rparr>\<rparr>
                         else s2\<lparr>MainTime := (MainTime s2)\<lparr>hrs := 0\<rparr>,
                                 day_rollover := 1\<rparr>))
      in s1\<lparr>mins_rollover := 0\<rparr>)"

text \<open>\<^verbatim>\<open>CalcLeapYear\<close>, lines 708--725.\<close>

definition CalcLeapYear :: "c_uint \<Rightarrow> c_char" where
  "CalcLeapYear year =
     (if year mod 4 = 0
      then (if year mod 100 = 0
            then (if year mod 400 = 0 then 1 else 0)
            else 1)
      else 0)"

text \<open>
  The cascade both branches of \<^verbatim>\<open>CalcDate\<close> run when the day cannot be incremented:
  lines 672--687 with \<open>bounded = True\<close> (the year is compared with 99), lines 695--703 with
  \<open>bounded = False\<close> (the year is incremented unconditionally).
\<close>

definition CalcDate_wrap :: "bool \<Rightarrow> DATE \<Rightarrow> DATE" where
  "CalcDate_wrap bounded d =
     (let d1 = d\<lparr>day := 1\<rparr>
      in if month d1 < 12
         then d1\<lparr>month := month d1 + 1\<rparr>
         else (let d2 = d1\<lparr>month := 1\<rparr>
               in if bounded
                  then (if year_long d2 < 99
                        then d2\<lparr>year_long := year_long d2 + 1, year_short := year_short d2 + 1\<rparr>
                        else d2\<lparr>year_long := 2000, year_short := 0\<rparr>)
                  else d2\<lparr>year_long := year_long d2 + 1, year_short := year_short d2 + 1\<rparr>))"

text \<open>\<^verbatim>\<open>CalcDate\<close>, lines 665--706.\<close>

definition CalcDate :: "globals \<Rightarrow> globals option" where
  "CalcDate s0 =
     (let s = s0\<lparr>day_rollover := 0\<rparr>; d = MainDate s
      in if CalcLeapYear (year_long d) = 0
         then (case c_index DaysInMonth (month d) of
                 None \<Rightarrow> None
               | Some n \<Rightarrow>
                   if day d < n
                   then Some (s\<lparr>MainDate := d\<lparr>day := day d + 1\<rparr>\<rparr>)
                   else Some (s\<lparr>MainDate := CalcDate_wrap True d\<rparr>))
         else (case c_index DaysInMonthLeap (month d) of
                 None \<Rightarrow> None
               | Some n \<Rightarrow>
                   if day d < n
                   then Some (s\<lparr>MainDate := d\<lparr>day := day d + 1\<rparr>\<rparr>)
                   else Some (s\<lparr>MainDate := CalcDate_wrap False d\<rparr>)))"

text \<open>The first two statements of the main loop, lines 288--293.\<close>

definition main_rollovers :: "globals \<Rightarrow> globals option" where
  "main_rollovers s =
     (let s1 = (if mins_rollover s \<ge> 1 then CalcTime s else s)
      in if day_rollover s1 = 1 then CalcDate s1 else Some s1)"

section \<open>The tick scheduler and the input pins\<close>

text \<open>The macros of lines 36--55 that the modelled functions use.\<close>

abbreviation (input) SET_MENU_FLASH :: c_char where "SET_MENU_FLASH \<equiv> 100"
abbreviation (input) ALARM_TOGGLE :: c_char where "ALARM_TOGGLE \<equiv> 150"
abbreviation (input) DEBOUNCE_DELAY :: c_uint where "DEBOUNCE_DELAY \<equiv> 25"
abbreviation (input) KEY_REPEAT_DELAY :: c_char where "KEY_REPEAT_DELAY \<equiv> 25"
abbreviation (input) HRS :: c_char where "HRS \<equiv> 0x04"
abbreviation (input) MINS :: c_char where "MINS \<equiv> 0x02"
abbreviation (input) SECS :: c_char where "SECS \<equiv> 0x01"
abbreviation (input) DAY :: c_char where "DAY \<equiv> 0x20"
abbreviation (input) MONTH :: c_char where "MONTH \<equiv> 0x10"
abbreviation (input) YEAR :: c_char where "YEAR \<equiv> 0x08"
abbreviation (input) ALARM1 :: c_char where "ALARM1 \<equiv> 0x80"
abbreviation (input) ALARM2 :: c_char where "ALARM2 \<equiv> 0x40"

text \<open>\<^verbatim>\<open>Timer0_isr\<close>, lines 376--406.\<close>

definition Timer0_isr :: "globals \<Rightarrow> globals" where
  "Timer0_isr s =
     (let s1 = (if multiplex_index s = 1
                then s\<lparr>LATH_LH0 := True, LATH_LH1 := True, LATA_LA4 := True,
                       LATF := disp_LEDS s\<rparr>
                else if multiplex_index s = 2
                then s\<lparr>LATH_LH0 := False, LATH_LH1 := True, LATA_LA4 := False,
                       LATF := disp_U1 s AND dp_mask s\<rparr>
                else if multiplex_index s = 3
                then s\<lparr>LATH_LH0 := True, LATH_LH1 := False, LATA_LA4 := False,
                       LATF := disp_U2 s, multiplex_index := 0\<rparr>
                else s\<lparr>multiplex_index := 0\<rparr>)
      in s1\<lparr>multiplex_index := multiplex_index s1 + 1,
             ms_count0 := ms_count0 s1 + 1,
             ms_count1 := ms_count1 s1 + 1,
             ms_count2 := ms_count2 s1 + 1,
             ms_count3 := ms_count3 s1 + 1\<rparr>)"

text \<open>
  The library routine \<^verbatim>\<open>Delay10KTCYx\<close> spends instruction cycles and writes no variable of
  the program. The model keeps the call and gives it no effect: the interrupts that fire
  while it runs are not interleaved into main-loop code.
\<close>

definition Delay10KTCYx :: "c_char \<Rightarrow> globals \<Rightarrow> globals" where
  "Delay10KTCYx n s = s"

text \<open>One read of an input port: the environment's next value.\<close>

definition read_PORTB :: "globals \<Rightarrow> c_char \<times> globals" where
  "read_PORTB s = (PORTB_env s (reads s), s\<lparr>reads := Suc (reads s)\<rparr>)"

definition read_PORTC :: "globals \<Rightarrow> c_char \<times> globals" where
  "read_PORTC s = (PORTC_env s (reads s), s\<lparr>reads := Suc (reads s)\<rparr>)"

definition read_PORTH :: "globals \<Rightarrow> c_char \<times> globals" where
  "read_PORTH s = (PORTH_env s (reads s), s\<lparr>reads := Suc (reads s)\<rparr>)"

definition read_PORTJ :: "globals \<Rightarrow> c_char \<times> globals" where
  "read_PORTJ s = (PORTJ_env s (reads s), s\<lparr>reads := Suc (reads s)\<rparr>)"

text \<open>\<^verbatim>\<open>Switches\<close>, lines 490--499.\<close>

definition Switches :: "globals \<Rightarrow> c_char \<times> globals" where
  "Switches s =
     (let (pc, s1) = read_PORTC s;
          temp1 = drop_bit 2 pc;
          temp1 = temp1 AND 0x0F;
          (ph, s2) = read_PORTH s1;
          temp2 = ph AND 0xF0;
          temp = temp1 OR temp2
      in (temp, s2))"

text \<open>
  The empty loop \<^verbatim>\<open>while(ms_count1 < DEBOUNCE_DELAY) {}\<close> of lines 588 and 605. Only the
  Timer0 interrupt can end it; one round of the model is one firing of \<^verbatim>\<open>Timer0_isr\<close>.
\<close>

lemma ms_count1_Timer0_isr: "ms_count1 (Timer0_isr s) = ms_count1 s + 1"
  by (simp add: Timer0_isr_def Let_def)

function debounce_wait :: "globals \<Rightarrow> globals" where
  "debounce_wait s = (if ms_count1 s < DEBOUNCE_DELAY then debounce_wait (Timer0_isr s) else s)"
  by pat_completeness auto
termination
  by (relation "measure (\<lambda>s. 25 - unat (ms_count1 s))")
     (auto simp: ms_count1_Timer0_isr word_less_nat_alt unat_word_ariths)

declare debounce_wait.simps [simp del]

text \<open>
  \<^verbatim>\<open>PB1pressed\<close>, lines 585--600: the first sample is bit 5 of port J, the second is
  bit 0 of port J. A button line is asserted when it reads 0.
\<close>

definition PB1pressed :: "globals \<Rightarrow> c_char \<times> globals" where
  "PB1pressed s =
     (let (pj, s1) = read_PORTJ s
      in if \<not> bit pj 5
         then (let s2 = debounce_wait (s1\<lparr>ms_count1 := 0\<rparr>);
                   (pj', s3) = read_PORTJ s2
               in if \<not> bit pj' 0 then (1, s3) else (0, s3))
         else (0, s1))"

text \<open>\<^verbatim>\<open>PB2pressed\<close>, lines 602--617: both samples are bit 0 of port B.\<close>

definition PB2pressed :: "globals \<Rightarrow> c_char \<times> globals" where
  "PB2pressed s =
     (let (pb, s1) = read_PORTB s
      in if \<not> bit pb 0
         then (let s2 = debounce_wait (s1\<lparr>ms_count1 := 0\<rparr>);
                   (pb', s3) = read_PORTB s2
               in if \<not> bit pb' 0 then (1, s3) else (0, s3))
         else (0, s1))"

section \<open>The display\<close>

text \<open>\<^verbatim>\<open>DispNums\<close> (line 186) and the members of \<^verbatim>\<open>DispChars\<close> (line 215) that are used.\<close>

definition DispNums :: "c_char list" where
  "DispNums = [0x84, 0xF5, 0x4C, 0x64, 0x35, 0x26, 0x06, 0xF4, 0x04, 0x34]"

definition DispChars_A :: c_char where "DispChars_A = 0x14"
definition DispChars_d :: c_char where "DispChars_d = 0x45"
definition DispChars_E :: c_char where "DispChars_E = 0x0E"
definition DispChars_F :: c_char where "DispChars_F = 0x1E"
definition DispChars_h :: c_char where "DispChars_h = 0x17"
definition DispChars_i :: c_char where "DispChars_i = 0xDF"
definition DispChars_M :: c_char where "DispChars_M = 0xD6"
definition DispChars_n :: c_char where "DispChars_n = 0x57"
definition DispChars_o :: c_char where "DispChars_o = 0x47"
definition DispChars_r :: c_char where "DispChars_r = 0x5F"
definition DispChars_S :: c_char where "DispChars_S = 0x26"
definition DispChars_y :: c_char where "DispChars_y = 0x25"

text \<open>
  \<^verbatim>\<open>Num2Disp\<close>, lines 439--454. The argument is the \<^verbatim>\<open>char\<close> the pointer refers to; the
  function only reads it. \<open>None\<close> would be a read past the end of \<^verbatim>\<open>DispNums\<close>.
\<close>

definition Num2Disp :: "c_char \<Rightarrow> globals \<Rightarrow> globals option" where
  "Num2Disp v s =
     (if v > 99
      then Some (s\<lparr>disp_U1 := DispChars_r, disp_U2 := DispChars_E, disp_LEDS := 0x01\<rparr>)
      else (let tens = v div 10; units = v mod 10
            in case c_index DispNums tens of
                 None \<Rightarrow> None
               | Some t \<Rightarrow>
                   (case c_index DispNums units of
                      None \<Rightarrow> None
                    | Some u \<Rightarrow> Some (s\<lparr>disp_U2 := t, disp_U1 := u\<rparr>))))"

text \<open>\<^verbatim>\<open>CurrentDisplay\<close>, lines 456--488, applied to the index the pointer refers to.\<close>

definition CurrentDisplay :: "c_char \<Rightarrow> globals \<Rightarrow> globals option" where
  "CurrentDisplay i s =
     (if i = 0 then map_option (\<lambda>s'. s'\<lparr>disp_LEDS := DAY\<rparr>) (Num2Disp (day (MainDate s)) s)
      else if i = 1 then map_option (\<lambda>s'. s'\<lparr>disp_LEDS := MONTH\<rparr>) (Num2Disp (month (MainDate s)) s)
      else if i = 2 then map_option (\<lambda>s'. s'\<lparr>disp_LEDS := YEAR\<rparr>) (Num2Disp (year_short (MainDate s)) s)
      else if i = 3 then map_option (\<lambda>s'. s'\<lparr>disp_LEDS := HRS\<rparr>) (Num2Disp (hrs (MainTime s)) s)
      else if i = 4 then map_option (\<lambda>s'. s'\<lparr>disp_LEDS := MINS\<rparr>) (Num2Disp (mins (MainTime s)) s)
      else if i = 5 then map_option (\<lambda>s'. s'\<lparr>disp_LEDS := SECS\<rparr>) (Num2Disp (secs (MainTime s)) s)
      else Some (s\<lparr>disp_U2 := DispChars_E, disp_U1 := DispChars_r, disp_LEDS := 0x03\<rparr>))"

section \<open>The alarm comparison\<close>

text \<open>
  \<^verbatim>\<open>CompareTimes\<close>, lines 1374--1394. The structures behind the pointer arguments are only
  read, so the model takes their values.
\<close>

definition CompareTimes :: "TIME \<Rightarrow> DATE \<Rightarrow> TIME \<Rightarrow> DATE \<Rightarrow> c_char \<Rightarrow> c_char" where
  "CompareTimes mainTime mainDate alarmTime alarmDate args =
     (if args = 1
      then (if hrs mainTime = hrs alarmTime \<and> mins mainTime = mins alarmTime
               \<and> secs mainTime = secs alarmTime
            then 1 else 0)
      else if args = 2
      then (if hrs mainTime = hrs alarmTime \<and> mins mainTime = mins alarmTime
               \<and> secs mainTime = secs alarmTime \<and> day mainDate = day alarmDate
               \<and> month mainDate = month alarmDate
               \<and> year_short mainDate = year_short alarmDate
            then 1 else 0)
      else 0)"

text \<open>C's \<^verbatim>\<open>&&\<close> on two \<^verbatim>\<open>char\<close> operands: an \<^verbatim>\<open>int\<close> that is 1 or 0.\<close>

definition c_land :: "c_char \<Rightarrow> c_char \<Rightarrow> int" where
  "c_land a b = (if a \<noteq> 0 \<and> b \<noteq> 0 then 1 else 0)"

text \<open>
  The conditions under which the main loop calls \<^verbatim>\<open>SoundAlarm1\<close> (line 335) and
  \<^verbatim>\<open>SoundAlarm2\<close> (line 339) at a poll.
\<close>

definition Alarm1_fires :: "globals \<Rightarrow> bool" where
  "Alarm1_fires s =
     (c_land (CompareTimes (MainTime s) (MainDate s) (Alarm1Time s) (Alarm1Date s) 1)
             (Alarm1On s) = 1)"

definition Alarm2_fires :: "globals \<Rightarrow> bool" where
  "Alarm2_fires s =
     (c_land (CompareTimes (MainTime s) (MainDate s) (Alarm2Time s) (Alarm2Date s) 2)
             (Alarm2On s) = 1)"

section \<open>The field editors\<close>

text \<open>
  The editors take a pointer to one of the three \<^verbatim>\<open>TIME\<close> or one of the three \<^verbatim>\<open>DATE\<close>
  variables. A pointer is the name of its target; reading and writing through it go to
  that variable of the state.
\<close>

datatype TIME_ptr = MainTime_ptr | Alarm1Time_ptr | Alarm2Time_ptr

datatype DATE_ptr = MainDate_ptr | Alarm1Date_ptr | Alarm2Date_ptr

fun TIME_at :: "TIME_ptr \<Rightarrow> globals \<Rightarrow> TIME" where
  "TIME_at MainTime_ptr s = MainTime s"
| "TIME_at Alarm1Time_ptr s = Alarm1Time s"
| "TIME_at Alarm2Time_ptr s = Alarm2Time s"

fun TIME_put :: "TIME_ptr \<Rightarrow> TIME \<Rightarrow> globals \<Rightarrow> globals" where
  "TIME_put MainTime_ptr t s = s\<lparr>MainTime := t\<rparr>"
| "TIME_put Alarm1Time_ptr t s = s\<lparr>Alarm1Time := t\<rparr>"
| "TIME_put Alarm2Time_ptr t s = s\<lparr>Alarm2Time := t\<rparr>"

fun DATE_at :: "DATE_ptr \<Rightarrow> globals \<Rightarrow> DATE" where
  "DATE_at MainDate_ptr s = MainDate s"
| "DATE_at Alarm1Date_ptr s = Alarm1Date s"
| "DATE_at Alarm2Date_ptr s = Alarm2Date s"

fun DATE_put :: "DATE_ptr \<Rightarrow> DATE \<Rightarrow> globals \<Rightarrow> globals" where
  "DATE_put MainDate_ptr d s = s\<lparr>MainDate := d\<rparr>"
| "DATE_put Alarm1Date_ptr d s = s\<lparr>Alarm1Date := d\<rparr>"
| "DATE_put Alarm2Date_ptr d s = s\<lparr>Alarm2Date := d\<rparr>"

text \<open>
  Every statement of an editor has the shape
  \<^verbatim>\<open>if(PBxpressed() && cond) { body; Delay10KTCYx(KEY_REPEAT_DELAY); }\<close>.
  The button function is always called; \<^verbatim>\<open>cond\<close> is evaluated only when it returned
  non-zero.
\<close>

definition if_pressed ::
  "(globals \<Rightarrow> c_char \<times> globals) \<Rightarrow> (globals \<Rightarrow> bool) \<Rightarrow> (globals \<Rightarrow> globals)
     \<Rightarrow> globals \<Rightarrow> globals" where
  "if_pressed PBpressed cond body s =
     (let (p, s1) = PBpressed s
      in if p \<noteq> 0 \<and> cond s1 then Delay10KTCYx KEY_REPEAT_DELAY (body s1) else s1)"

text \<open>\<^verbatim>\<open>SetSecs\<close>, lines 727--744.\<close>

definition SetSecs :: "TIME_ptr \<Rightarrow> globals \<Rightarrow> globals" where
  "SetSecs ts s =
     (let s = if_pressed PB2pressed (\<lambda>s. secs (TIME_at ts s) < 59)
                (\<lambda>s. TIME_put ts ((TIME_at ts s)\<lparr>secs := secs (TIME_at ts s) + 1\<rparr>) s) s;
          s = if_pressed PB2pressed (\<lambda>s. secs (TIME_at ts s) = 59)
                (\<lambda>s. TIME_put ts ((TIME_at ts s)\<lparr>secs := 0\<rparr>) s) s;
          s = if_pressed PB1pressed (\<lambda>s. secs (TIME_at ts s) > 0)
                (\<lambda>s. TIME_put ts ((TIME_at ts s)\<lparr>secs := secs (TIME_at ts s) - 1\<rparr>) s) s;
          s = if_pressed PB1pressed (\<lambda>s. secs (TIME_at ts s) = 0)
                (\<lambda>s. TIME_put ts ((TIME_at ts s)\<lparr>secs := 59\<rparr>) s) s
      in s)"

text \<open>\<^verbatim>\<open>SetMins\<close>, lines 746--763.\<close>

definition SetMins :: "TIME_ptr \<Rightarrow> globals \<Rightarrow> globals" where
  "SetMins tm s =
     (let s = if_pressed PB2pressed (\<lambda>s. mins (TIME_at tm s) < 59)
                (\<lambda>s. TIME_put tm ((TIME_at tm s)\<lparr>mins := mins (TIME_at tm s) + 1\<rparr>) s) s;
          s = if_pressed PB2pressed (\<lambda>s. mins (TIME_at tm s) = 59)
                (\<lambda>s. TIME_put tm ((TIME_at tm s)\<lparr>mins := 0\<rparr>) s) s;
          s = if_pressed PB1pressed (\<lambda>s. mins (TIME_at tm s) > 0)
                (\<lambda>s. TIME_put tm ((TIME_at tm s)\<lparr>mins := mins (TIME_at tm s) - 1\<rparr>) s) s;
          s = if_pressed PB1pressed (\<lambda>s. mins (TIME_at tm s) = 0)
                (\<lambda>s. TIME_put tm ((TIME_at tm s)\<lparr>mins := 59\<rparr>) s) s
      in s)"

text \<open>\<^verbatim>\<open>SetHrs\<close>, lines 765--782.\<close>

definition SetHrs :: "TIME_ptr \<Rightarrow> globals \<Rightarrow> globals" where
  "SetHrs th s =
     (let s = if_pressed PB2pressed (\<lambda>s. hrs (TIME_at th s) < 23)
                (\<lambda>s. TIME_put th ((TIME_at th s)\<lparr>hrs := hrs (TIME_at th s) + 1\<rparr>) s) s;
          s = if_pressed PB2pressed (\<lambda>s. hrs (TIME_at th s) = 23)
                (\<lambda>s. TIME_put th ((TIME_at th s)\<lparr>hrs := 0\<rparr>) s) s;
          s = if_pressed PB1pressed (\<lambda>s. hrs (TIME_at th s) > 0)
                (\<lambda>s. TIME_put th ((TIME_at th s)\<lparr>hrs := hrs (TIME_at th s) - 1\<rparr>) s) s;
          s = if_pressed PB1pressed (\<lambda>s. hrs (TIME_at th s) = 0)
                (\<lambda>s. TIME_put th ((TIME_at th s)\<lparr>hrs := 23\<rparr>) s) s
      in s)"

text \<open>
  The four statements of each branch of \<^verbatim>\<open>SetDay\<close>. The table \<open>tbl\<close> is the one the
  statement indexes; \<open>None\<close> is a read past its end.
  \<^item> \<open>SetDay_inc tbl\<close>: \<^verbatim>\<open>if(PB2pressed() && dd->day < tbl[dd->month]) dd->day++\<close>
    (lines 786 and 804);
  \<^item> \<open>SetDay_top tbl\<close>: \<^verbatim>\<open>if(PB2pressed() && dd->day == tbl[dd->month]) dd->day = 1\<close>
    (lines 790 and 808);
  \<^item> \<open>SetDay_dec\<close>: \<^verbatim>\<open>if(PB1pressed() && dd->day > 1) dd->day--\<close> (lines 794 and 812);
  \<^item> \<open>SetDay_bottom\<close>:
    \<^verbatim>\<open>if(PB1pressed() && dd->day == 1) dd->day = DaysInMonth[MainDate.month]\<close>
    (lines 798 and 816).
\<close>

definition SetDay_inc :: "c_char list \<Rightarrow> DATE_ptr \<Rightarrow> globals \<Rightarrow> globals option" where
  "SetDay_inc tbl dd s =
     (let (p, s1) = PB2pressed s
      in if p \<noteq> 0
         then (case c_index tbl (month (DATE_at dd s1)) of
                 None \<Rightarrow> None
               | Some n \<Rightarrow>
                   if day (DATE_at dd s1) < n
                   then Some (Delay10KTCYx KEY_REPEAT_DELAY
                          (DATE_put dd ((DATE_at dd s1)\<lparr>day := day (DATE_at dd s1) + 1\<rparr>) s1))
                   else Some s1)
         else Some s1)"

definition SetDay_top :: "c_char list \<Rightarrow> DATE_ptr \<Rightarrow> globals \<Rightarrow> globals option" where
  "SetDay_top tbl dd s =
     (let (p, s1) = PB2pressed s
      in if p \<noteq> 0
         then (case c_index tbl (month (DATE_at dd s1)) of
                 None \<Rightarrow> None
               | Some n \<Rightarrow>
                   if day (DATE_at dd s1) = n
                   then Some (Delay10KTCYx KEY_REPEAT_DELAY
                          (DATE_put dd ((DATE_at dd s1)\<lparr>day := 1\<rparr>) s1))
                   else Some s1)
         else Some s1)"

definition SetDay_dec :: "DATE_ptr \<Rightarrow> globals \<Rightarrow> globals option" where
  "SetDay_dec dd s =
     Some (if_pressed PB1pressed (\<lambda>s. day (DATE_at dd s) > 1)
             (\<lambda>s. DATE_put dd ((DATE_at dd s)\<lparr>day := day (DATE_at dd s) - 1\<rparr>) s) s)"

definition SetDay_bottom :: "DATE_ptr \<Rightarrow> globals \<Rightarrow> globals option" where
  "SetDay_bottom dd s =
     (let (p, s1) = PB1pressed s
      in if p \<noteq> 0 \<and> day (DATE_at dd s1) = 1
         then (case c_index DaysInMonth (month (MainDate s1)) of
                 None \<Rightarrow> None
               | Some n \<Rightarrow>
                   Some (Delay10KTCYx KEY_REPEAT_DELAY
                          (DATE_put dd ((DATE_at dd s1)\<lparr>day := n\<rparr>) s1)))
         else Some s1)"

text \<open>\<^verbatim>\<open>SetDay\<close>, lines 784--823.\<close>

definition SetDay :: "DATE_ptr \<Rightarrow> globals \<Rightarrow> globals option" where
  "SetDay dd s =
     (if CalcLeapYear (year_long (DATE_at dd s)) = 1
      then do {
        s1 \<leftarrow> SetDay_inc DaysInMonthLeap dd s;
        s2 \<leftarrow> SetDay_top DaysInMonthLeap dd s1;
        s3 \<leftarrow> SetDay_dec dd s2;
        SetDay_bottom dd s3
      }
      else do {
        s1 \<leftarrow> SetDay_inc DaysInMonthLeap dd s;
        s2 \<leftarrow> SetDay_top DaysInMonth dd s1;
        s3 \<leftarrow> SetDay_dec dd s2;
        SetDay_bottom dd s3
      })"

text \<open>\<^verbatim>\<open>SetMonth\<close>, lines 825--842.\<close>

definition SetMonth :: "DATE_ptr \<Rightarrow> globals \<Rightarrow> globals" where
  "SetMonth dm s =
     (let s = if_pressed PB2pressed (\<lambda>s. month (DATE_at dm s) < 12)
                (\<lambda>s. DATE_put dm ((DATE_at dm s)\<lparr>month := month (DATE_at dm s) + 1\<rparr>) s) s;
          s = if_pressed PB2pressed (\<lambda>s. month (DATE_at dm s) = 12)
                (\<lambda>s. DATE_put dm ((DATE_at dm s)\<lparr>month := 1\<rparr>) s) s;
          s = if_pressed PB1pressed (\<lambda>s. month (DATE_at dm s) > 1)
                (\<lambda>s. DATE_put dm ((DATE_at dm s)\<lparr>month := month (DATE_at dm s) - 1\<rparr>) s) s;
          s = if_pressed PB1pressed (\<lambda>s. month (DATE_at dm s) = 1)
                (\<lambda>s. DATE_put dm ((DATE_at dm s)\<lparr>month := 12\<rparr>) s) s
      in s)"

text \<open>\<^verbatim>\<open>SetYear\<close>, lines 844--865.\<close>

definition SetYear :: "DATE_ptr \<Rightarrow> globals \<Rightarrow> globals" where
  "SetYear dy s =
     (let s = if_pressed PB2pressed (\<lambda>s. year_long (DATE_at dy s) < 2099)
                (\<lambda>s. DATE_put dy ((DATE_at dy s)\<lparr>year_long := year_long (DATE_at dy s) + 1,
                                                year_short := year_short (DATE_at dy s) + 1\<rparr>) s) s;
          s = if_pressed PB2pressed (\<lambda>s. year_long (DATE_at dy s) = 2099)
                (\<lambda>s. DATE_put dy ((DATE_at dy s)\<lparr>year_long := 2000, year_short := 0\<rparr>) s) s;
          s = if_pressed PB1pressed (\<lambda>s. year_long (DATE_at dy s) > 2000)
                (\<lambda>s. DATE_put dy ((DATE_at dy s)\<lparr>year_long := year_long (DATE_at dy s) - 1,
                                                year_short := year_short (DATE_at dy s) - 1\<rparr>) s) s;
          s = if_pressed PB1pressed (\<lambda>s. year_long (DATE_at dy s) = 2000)
                (\<lambda>s. DATE_put dy ((DATE_at dy s)\<lparr>year_long := 2099, year_short := 99\<rparr>) s) s
      in s)"

section \<open>The settings menu\<close>

text \<open>
  The part the Flash routines share: show the two glyphs, blank the displays, twice, with
  a delay after each (for instance lines 871--882).
\<close>

definition flash_twice :: "c_char \<Rightarrow> c_char \<Rightarrow> globals \<Rightarrow> globals" where
  "flash_twice u2 u1 s =
     (let s = s\<lparr>disp_U2 := u2\<rparr>; s = s\<lparr>disp_U1 := u1\<rparr>;
          s = Delay10KTCYx SET_MENU_FLASH s;
          s = s\<lparr>disp_U2 := 0xFF\<rparr>; s = s\<lparr>disp_U1 := 0xFF\<rparr>;
          s = Delay10KTCYx SET_MENU_FLASH s;
          s = s\<lparr>disp_U2 := u2\<rparr>; s = s\<lparr>disp_U1 := u1\<rparr>;
          s = Delay10KTCYx SET_MENU_FLASH s;
          s = s\<lparr>disp_U2 := 0xFF\<rparr>; s = s\<lparr>disp_U1 := 0xFF\<rparr>;
          s = Delay10KTCYx SET_MENU_FLASH s
      in s)"

text \<open>The Flash routines, lines 867--991 and 1193--1209.\<close>

definition SecsFlash :: "globals \<Rightarrow> globals" where
  "SecsFlash s =
     (let s = s\<lparr>disp_LEDS := disp_LEDS s AND 0xC0\<rparr>;
          s = s\<lparr>disp_LEDS := disp_LEDS s OR SECS\<rparr>;
          s = s\<lparr>dp_mask := dp_mask s OR push_bit 2 1\<rparr>
      in flash_twice DispChars_S DispChars_S s)"

definition MinsFlash :: "globals \<Rightarrow> globals" where
  "MinsFlash s =
     (let s = s\<lparr>disp_LEDS := disp_LEDS s AND 0xC0\<rparr>;
          s = s\<lparr>disp_LEDS := disp_LEDS s OR MINS\<rparr>;
          s = s\<lparr>dp_mask := dp_mask s OR push_bit 2 1\<rparr>
      in flash_twice DispChars_M DispChars_i s)"

definition HrsFlash :: "globals \<Rightarrow> globals" where
  "HrsFlash s =
     (let s = s\<lparr>disp_LEDS := disp_LEDS s AND 0xC0\<rparr>;
          s = s\<lparr>disp_LEDS := disp_LEDS s OR HRS\<rparr>;
          s = s\<lparr>dp_mask := dp_mask s OR push_bit 2 1\<rparr>
      in flash_twice DispChars_h DispChars_h s)"

definition DayFlash :: "globals \<Rightarrow> globals" where
  "DayFlash s =
     (let s = s\<lparr>disp_LEDS := disp_LEDS s AND 0xC0\<rparr>;
          s = s\<lparr>disp_LEDS := disp_LEDS s OR DAY\<rparr>;
          s = s\<lparr>dp_mask := dp_mask s OR push_bit 2 1\<rparr>
      in flash_twice DispChars_d DispChars_d s)"

definition MonthFlash :: "globals \<Rightarrow> globals" where
  "MonthFlash s =
     (let s = s\<lparr>disp_LEDS := disp_LEDS s AND 0xC0\<rparr>;
          s = s\<lparr>disp_LEDS := disp_LEDS s AND MONTH\<rparr>;
          s = s\<lparr>dp_mask := dp_mask s OR push_bit 2 1\<rparr>
      in flash_twice DispChars_M DispChars_o s)"

definition YearFlash :: "globals \<Rightarrow> globals" where
  "YearFlash s =
     (let s = s\<lparr>disp_LEDS := disp_LEDS s AND 0xC0\<rparr>;
          s = s\<lparr>disp_LEDS := disp_LEDS s OR YEAR\<rparr>;
          s = s\<lparr>dp_mask := dp_mask s OR push_bit 2 1\<rparr>
      in flash_twice DispChars_y DispChars_y s)"

definition Alarm1Flash :: "globals \<Rightarrow> globals" where
  "Alarm1Flash s =
     (let s = s\<lparr>disp_LEDS := disp_LEDS s AND 0xC0\<rparr>;
          s = s\<lparr>disp_LEDS := disp_LEDS s OR ALARM1\<rparr>;
          s = s\<lparr>dp_mask := dp_mask s OR push_bit 2 1\<rparr>
      in flash_twice DispChars_A (DispNums ! 1) s)"

definition Alarm2Flash :: "globals \<Rightarrow> globals" where
  "Alarm2Flash s =
     (let s = s\<lparr>disp_LEDS := disp_LEDS s AND 0xC0\<rparr>;
          s = s\<lparr>disp_LEDS := disp_LEDS s OR ALARM2\<rparr>;
          s = s\<lparr>dp_mask := dp_mask s OR push_bit 2 1\<rparr>
      in flash_twice DispChars_A (DispNums ! 2) s)"

text \<open>
  \<^verbatim>\<open>SetMenu\<close>, \<^verbatim>\<open>SetAlarm1\<close> and \<^verbatim>\<open>SetAlarm2\<close> stay in their loops for as long as the operator
  leaves the switches alone, so they are modelled as a machine that is stepped. A
  location is the loop test the program is about to evaluate:
  \<^item> \<open>MenuTop\<close>: \<^verbatim>\<open>while (Switches() != 0x00)\<close>, line 502;
  \<^item> \<open>EditSecs\<close> .. \<open>EditYear\<close>: the inner loops of the six clock cases of \<^verbatim>\<open>SetMenu\<close>
    (lines 508, 518, 528, 538, 548, 558);
  \<^item> \<open>Alarm1Menu\<close>, \<open>Alarm2Menu\<close>: \<^verbatim>\<open>while ((Switches() >> 7) == 1)\<close>, line 566, and
    \<^verbatim>\<open>while ((Switches() >> 6) == 1)\<close>, line 572;
  \<^item> \<open>Alarm1Secs\<close>, \<open>Alarm1Mins\<close>, \<open>Alarm1Hrs\<close>, \<open>Alarm1Toggle\<close>: the loops of
    \<^verbatim>\<open>SetAlarm1\<close> (lines 997, 1004, 1011, 1018);
  \<^item> \<open>Alarm2Secs\<close> .. \<open>Alarm2Toggle\<close>: the loops of \<^verbatim>\<open>SetAlarm2\<close> (lines 1215, 1222,
    1229, 1236, 1243, 1250, 1257);
  \<^item> \<open>MenuExit\<close>: \<^verbatim>\<open>SetMenu\<close> has returned to the main loop.
\<close>

datatype menu_loc =
    MenuTop
  | EditSecs | EditMins | EditHrs | EditDay | EditMonth | EditYear
  | Alarm1Menu | Alarm1Secs | Alarm1Mins | Alarm1Hrs | Alarm1Toggle
  | Alarm2Menu | Alarm2Secs | Alarm2Mins | Alarm2Hrs | Alarm2Year | Alarm2Month | Alarm2Day
  | Alarm2Toggle
  | MenuExit

text \<open>
  What a clock case of \<^verbatim>\<open>SetMenu\<close> does before its loop (for seconds, lines 505--507):
  clear Timer1's interrupt enable, flash the mnemonic, show the field.
\<close>

definition enter_edit ::
  "(globals \<Rightarrow> globals) \<Rightarrow> (globals \<Rightarrow> c_char) \<Rightarrow> menu_loc \<Rightarrow> globals
     \<Rightarrow> (menu_loc \<times> globals) option" where
  "enter_edit flash shown loc s =
     (let s = s\<lparr>PIE1_TMR1IE := False\<rparr>;
          s = flash s
      in map_option (\<lambda>s'. (loc, s')) (Num2Disp (shown s) s))"

text \<open>
  One evaluation of an edit loop \<^verbatim>\<open>while (Switches() == code) { edit; Num2Disp(field); }\<close>
  at location \<open>here\<close>: either one round of the body, or the statements \<open>leave\<close> that follow
  the loop and the move to location \<open>next\<close>.
\<close>

definition edit_loop ::
  "c_char \<Rightarrow> (globals \<Rightarrow> globals option) \<Rightarrow> (globals \<Rightarrow> c_char) \<Rightarrow> menu_loc
     \<Rightarrow> (globals \<Rightarrow> globals) \<Rightarrow> menu_loc \<Rightarrow> globals \<Rightarrow> (menu_loc \<times> globals) option" where
  "edit_loop code edit shown here leave next s =
     (let (sw, s1) = Switches s
      in if sw = code
         then do {
           s2 \<leftarrow> edit s1;
           s3 \<leftarrow> Num2Disp (shown s2) s2;
           Some (here, s3)
         }
         else Some (next, leave s1))"

text \<open>The statement after each clock case's loop (for seconds, line 512).\<close>

definition enable_TMR1IE :: "globals \<Rightarrow> globals" where
  "enable_TMR1IE s = s\<lparr>PIE1_TMR1IE := True\<rparr>"

text \<open>\<^verbatim>\<open>SetMenu\<close> from its loop test to the loop of the selected case, lines 502--581.\<close>

definition SetMenu_top :: "globals \<Rightarrow> (menu_loc \<times> globals) option" where
  "SetMenu_top s =
     (let (sw, s1) = Switches s
      in if sw \<noteq> 0x00
         then (let (sw, s2) = Switches s1
               in if sw = SECS then enter_edit SecsFlash (\<lambda>s. secs (MainTime s)) EditSecs s2
                  else if sw = MINS then enter_edit MinsFlash (\<lambda>s. mins (MainTime s)) EditMins s2
                  else if sw = HRS then enter_edit HrsFlash (\<lambda>s. hrs (MainTime s)) EditHrs s2
                  else if sw = DAY then enter_edit DayFlash (\<lambda>s. day (MainDate s)) EditDay s2
                  else if sw = MONTH
                  then enter_edit MonthFlash (\<lambda>s. month (MainDate s)) EditMonth s2
                  else if sw = YEAR
                  then enter_edit YearFlash (\<lambda>s. year_short (MainDate s)) EditYear s2
                  else if sw = ALARM1 then Some (Alarm1Menu, Alarm1Flash s2)
                  else if sw = ALARM2 then Some (Alarm2Menu, Alarm2Flash s2)
                  else Some (MenuTop, s2\<lparr>disp_U2 := DispChars_E, disp_U1 := DispChars_r,
                                        disp_LEDS := 0x02\<rparr>))
         else Some (MenuExit, s1))"

text \<open>
  The body of the toggle loops, lines 1019--1036 and 1258--1275, up to which flag is
  written: \<open>put b s\<close> stores \<open>b\<close> in \<^verbatim>\<open>Alarm1On\<close> or \<^verbatim>\<open>Alarm2On\<close>, \<open>flag\<close> reads it, \<open>digit\<close> is
  the glyph of the alarm's number.
\<close>

definition toggle_body ::
  "c_char \<Rightarrow> (c_char \<Rightarrow> globals \<Rightarrow> globals) \<Rightarrow> (globals \<Rightarrow> c_char) \<Rightarrow> globals \<Rightarrow> globals" where
  "toggle_body digit put flag s =
     (let s = s\<lparr>disp_U2 := DispChars_A\<rparr>; s = s\<lparr>disp_U1 := digit\<rparr>;
          s = Delay10KTCYx ALARM_TOGGLE s;
          (p, s) = PB2pressed s;
          s = (if p = 1 then put 1 s else s);
          (p, s) = PB1pressed s;
          s = (if p = 1 then put 0 s else s);
          s = (if flag s = 1
               then s\<lparr>disp_U2 := DispChars_o, disp_U1 := DispChars_n\<rparr>
               else s\<lparr>disp_U2 := DispChars_o, disp_U1 := DispChars_F\<rparr>);
          s = Delay10KTCYx ALARM_TOGGLE s
      in s)"

text \<open>One evaluation of a toggle loop \<^verbatim>\<open>while(Switches() == code) { ... }\<close>.\<close>

definition toggle_loop ::
  "c_char \<Rightarrow> (globals \<Rightarrow> globals) \<Rightarrow> menu_loc \<Rightarrow> menu_loc \<Rightarrow> globals
     \<Rightarrow> (menu_loc \<times> globals) option" where
  "toggle_loop code body here next s =
     (let (sw, s1) = Switches s
      in if sw = code then Some (here, body s1) else Some (next, s1))"

text \<open>\<^verbatim>\<open>SetAlarm1\<close> from its \<^verbatim>\<open>switch\<close> to the loop of the selected case, lines 994--1044.\<close>

definition SetAlarm1 :: "globals \<Rightarrow> menu_loc \<times> globals" where
  "SetAlarm1 s =
     (let (sw, s1) = Switches s
      in if sw = 0x81 then (Alarm1Secs, SecsFlash s1)
         else if sw = 0x82 then (Alarm1Mins, MinsFlash s1)
         else if sw = 0x84 then (Alarm1Hrs, HrsFlash s1)
         else if sw = 0x80 then (Alarm1Toggle, s1\<lparr>disp_LEDS := 0x80\<rparr>)
         else (Alarm1Menu, s1\<lparr>disp_U2 := DispChars_E, disp_U1 := DispChars_r,
                               disp_LEDS := 0x04\<rparr>))"

text \<open>\<^verbatim>\<open>SetAlarm2\<close> from its \<^verbatim>\<open>switch\<close> to the loop of the selected case, lines 1212--1283.\<close>

definition SetAlarm2 :: "globals \<Rightarrow> menu_loc \<times> globals" where
  "SetAlarm2 s =
     (let (sw, s1) = Switches s
      in if sw = 0x41 then (Alarm2Secs, SecsFlash s1)
         else if sw = 0x42 then (Alarm2Mins, MinsFlash s1)
         else if sw = 0x44 then (Alarm2Hrs, HrsFlash s1)
         else if sw = 0x48 then (Alarm2Year, YearFlash s1)
         else if sw = 0x50 then (Alarm2Month, MonthFlash s1)
         else if sw = 0x60 then (Alarm2Day, DayFlash s1)
         else if sw = 0x40 then (Alarm2Toggle, s1\<lparr>disp_LEDS := 0x40\<rparr>)
         else (Alarm2Menu, s1\<lparr>disp_U2 := DispChars_E, disp_U1 := DispChars_r,
                               disp_LEDS := 0x04\<rparr>))"

text \<open>
  One step of the menu from each location. \<open>None\<close> is a read past the end of a table
  inside the step.
\<close>

fun SetMenu_step :: "menu_loc \<Rightarrow> globals \<Rightarrow> (menu_loc \<times> globals) option" where
  "SetMenu_step MenuTop s = SetMenu_top s"
| "SetMenu_step EditSecs s =
     edit_loop SECS (\<lambda>s. Some (SetSecs MainTime_ptr s)) (\<lambda>s. secs (MainTime s))
       EditSecs enable_TMR1IE MenuTop s"
| "SetMenu_step EditMins s =
     edit_loop MINS (\<lambda>s. Some (SetMins MainTime_ptr s)) (\<lambda>s. mins (MainTime s))
       EditMins enable_TMR1IE MenuTop s"
| "SetMenu_step EditHrs s =
     edit_loop HRS (\<lambda>s. Some (SetHrs MainTime_ptr s)) (\<lambda>s. hrs (MainTime s))
       EditHrs enable_TMR1IE MenuTop s"
| "SetMenu_step EditDay s =
     edit_loop DAY (SetDay MainDate_ptr) (\<lambda>s. day (MainDate s))
       EditDay enable_TMR1IE MenuTop s"
| "SetMenu_step EditMonth s =
     edit_loop MONTH (\<lambda>s. Some (SetMonth MainDate_ptr s)) (\<lambda>s. month (MainDate s))
       EditMonth enable_TMR1IE MenuTop s"
| "SetMenu_step EditYear s =
     edit_loop YEAR (\<lambda>s. Some (SetYear MainDate_ptr s)) (\<lambda>s. year_short (MainDate s))
       EditYear enable_TMR1IE MenuTop s"
| "SetMenu_step Alarm1Menu s =
     (let (sw, s1) = Switches s
      in if drop_bit 7 sw = 1 then Some (SetAlarm1 s1) else Some (MenuTop, s1))"
| "SetMenu_step Alarm1Secs s =
     edit_loop 0x81 (\<lambda>s. Some (SetSecs Alarm1Time_ptr s)) (\<lambda>s. secs (Alarm1Time s))
       Alarm1Secs (\<lambda>s. s) Alarm1Menu s"
| "SetMenu_step Alarm1Mins s =
     edit_loop 0x82 (\<lambda>s. Some (SetMins Alarm1Time_ptr s)) (\<lambda>s. mins (Alarm1Time s))
       Alarm1Mins (\<lambda>s. s) Alarm1Menu s"
| "SetMenu_step Alarm1Hrs s =
     edit_loop 0x84 (\<lambda>s. Some (SetHrs Alarm1Time_ptr s)) (\<lambda>s. hrs (Alarm1Time s))
       Alarm1Hrs (\<lambda>s. s) Alarm1Menu s"
| "SetMenu_step Alarm1Toggle s =
     toggle_loop 0x80 (toggle_body (DispNums ! 1) (\<lambda>b s. s\<lparr>Alarm1On := b\<rparr>) Alarm1On)
       Alarm1Toggle Alarm1Menu s"
| "SetMenu_step Alarm2Menu s =
     (let (sw, s1) = Switches s
      in if drop_bit 6 sw = 1 then Some (SetAlarm2 s1) else Some (MenuTop, s1))"
| "SetMenu_step Alarm2Secs s =
     edit_loop 0x41 (\<lambda>s. Some (SetSecs Alarm2Time_ptr s)) (\<lambda>s. secs (Alarm2Time s))
       Alarm2Secs (\<lambda>s. s) Alarm2Menu s"
| "SetMenu_step Alarm2Mins s =
     edit_loop 0x42 (\<lambda>s. Some (SetMins Alarm2Time_ptr s)) (\<lambda>s. mins (Alarm2Time s))
       Alarm2Mins (\<lambda>s. s) Alarm2Menu s"
| "SetMenu_step Alarm2Hrs s =
     edit_loop 0x44 (\<lambda>s. Some (SetHrs Alarm2Time_ptr s)) (\<lambda>s. hrs (Alarm2Time s))
       Alarm2Hrs (\<lambda>s. s) Alarm2Menu s"
| "SetMenu_step Alarm2Year s =
     edit_loop 0x48 (\<lambda>s. Some (SetYear Alarm2Date_ptr s)) (\<lambda>s. year_short (Alarm2Date s))
       Alarm2Year (\<lambda>s. s) Alarm2Menu s"
| "SetMenu_step Alarm2Month s =
     edit_loop 0x50 (\<lambda>s. Some (SetMonth Alarm2Date_ptr s)) (\<lambda>s. month (Alarm2Date s))
       Alarm2Month (\<lambda>s. s) Alarm2Menu s"
| "SetMenu_step Alarm2Day s =
     edit_loop 0x60 (SetDay Alarm2Date_ptr) (\<lambda>s. day (Alarm2Date s))
       Alarm2Day (\<lambda>s. s) Alarm2Menu s"
| "SetMenu_step Alarm2Toggle s =
     toggle_loop 0x40 (toggle_body (DispNums ! 2) (\<lambda>b s. s\<lparr>Alarm2On := b\<rparr>) Alarm2On)
       Alarm2Toggle Alarm2Menu s"
| "SetMenu_step MenuExit s = Some (MenuExit, s)"

text \<open>The menu after \<open>n\<close> steps from a location and a state.\<close>

fun SetMenu_run :: "nat \<Rightarrow> menu_loc \<Rightarrow> globals \<Rightarrow> (menu_loc \<times> globals) option" where
  "SetMenu_run 0 l s = Some (l, s)"
| "SetMenu_run (Suc n) l s =
     (case SetMenu_step l s of
        None \<Rightarrow> None
      | Some (l', s') \<Rightarrow> SetMenu_run n l' s')"

text \<open>The locations inside the six clock cases of \<^verbatim>\<open>SetMenu\<close>.\<close>

definition clock_edit :: "menu_loc \<Rightarrow> bool" where
  "clock_edit l = (l \<in> {EditSecs, EditMins, EditHrs, EditDay, EditMonth, EditYear})"

text \<open>The locations inside the edit and toggle loops of \<^verbatim>\<open>SetAlarm1\<close> and \<^verbatim>\<open>SetAlarm2\<close>.\<close>

definition alarm_edit :: "menu_loc \<Rightarrow> bool" where
  "alarm_edit l = (l \<in> {Alarm1Secs, Alarm1Mins, Alarm1Hrs, Alarm1Toggle, Alarm2Secs,
                       Alarm2Mins, Alarm2Hrs, Alarm2Year, Alarm2Month, Alarm2Day,
                       Alarm2Toggle})"

section \<open>Frames\<close>

text \<open>
  A state with the variables that \<^verbatim>\<open>Timer0_isr\<close> writes and the count of port reads
  blanked. Two states with the same image differ in those variables only.
\<close>

definition untimed :: "globals \<Rightarrow> globals" where
  "untimed s = s\<lparr>multiplex_index := 0, ms_count0 := 0, ms_count1 := 0, ms_count2 := 0,
                 ms_count3 := 0, LATH_LH0 := False, LATH_LH1 := False, LATA_LA4 := False,
                 LATF := 0, reads := 0\<rparr>"

text \<open>The assignment \<^verbatim>\<open>dd->day = x\<close>.\<close>

definition set_day :: "DATE_ptr \<Rightarrow> c_char \<Rightarrow> globals \<Rightarrow> globals" where
  "set_day dd x s = DATE_put dd ((DATE_at dd s)\<lparr>day := x\<rparr>) s"

section \<open>A concrete state\<close>

text \<open>
  The variables as \<^verbatim>\<open>main\<close> initialises them (lines 246--271) and as their declarations do
  (lines 224--237), with Timer1's interrupt enabled as \<^verbatim>\<open>StartTimer1\<close> leaves it, both
  buttons released (their lines read 1) and all toggle switches off.
\<close>

definition boot_globals :: globals where
  "boot_globals =
     \<lparr>MainTime = \<lparr>hrs = 0, mins = 0, secs = 0\<rparr>,
      Alarm1Time = \<lparr>hrs = 0, mins = 0, secs = 0\<rparr>,
      Alarm2Time = \<lparr>hrs = 0, mins = 0, secs = 0\<rparr>,
      MainDate = \<lparr>day = 1, month = 1, year_short = 16, year_long = 2016\<rparr>,
      Alarm1Date = \<lparr>day = 0, month = 0, year_short = 0, year_long = 0\<rparr>,
      Alarm2Date = \<lparr>day = 1, month = 1, year_short = 16, year_long = 2016\<rparr>,
      disp_index = 0, Alarm1On = 0, Alarm2On = 0, multiplex_index = 1,
      ms_count0 = 0, ms_count1 = 0, ms_count2 = 0, ms_count3 = 0,
      disp_U1 = 0, disp_U2 = 0, disp_LEDS = 0, dp_mask = 0xFF,
      day_rollover = 0, mins_rollover = 0,
      PIE1_TMR1IE = True, LATH_LH0 = False, LATH_LH1 = False, LATA_LA4 = False, LATF = 0,
      PORTB_env = (\<lambda>n. 0xFF), PORTC_env = (\<lambda>n. 0), PORTH_env = (\<lambda>n. 0),
      PORTJ_env = (\<lambda>n. 0xFF), reads = 0\<rparr>"

text \<open>
  Inputs for the settings menu and the buttons.
  \<^item> \<open>menu_secs\<close>: the switches read \<^verbatim>\<open>SECS\<close> (bit 2 of port C) during the first six port
    reads, that is three calls of \<^verbatim>\<open>Switches\<close>, and 0 afterwards;
  \<^item> \<open>menu_alarm1_secs\<close>: the switches read \<^verbatim>\<open>ALARM1\<close> (bit 7 of port H) during the first
    two calls of \<^verbatim>\<open>Switches\<close> and \<^verbatim>\<open>ALARM1 | SECS\<close> afterwards;
  \<^item> \<open>pb1_transient\<close>: RJ5, the line \<^verbatim>\<open>PB1pressed\<close> samples first, is 0 at the first read
    of port J and 1 from the second read on; RJ0 is 0 throughout;
  \<^item> \<open>pb1_held\<close>: RJ5 is 0 throughout and RJ0 is 1 throughout.
\<close>

definition menu_secs :: globals where
  "menu_secs = boot_globals\<lparr>PORTC_env := (\<lambda>n. if n < 6 then 0x04 else 0)\<rparr>"

definition menu_alarm1_secs :: globals where
  "menu_alarm1_secs =
     boot_globals\<lparr>PORTC_env := (\<lambda>n. if n < 4 then 0 else 0x04), PORTH_env := (\<lambda>n. 0x80)\<rparr>"

definition pb1_transient :: globals where
  "pb1_transient = boot_globals\<lparr>PORTJ_env := (\<lambda>n. if n = 0 then 0xDE else 0xFE)\<rparr>"

definition pb1_held :: globals where
  "pb1_held = boot_globals\<lparr>PORTJ_env := (\<lambda>n. 0xDF)\<rparr>"

text \<open>
  Inputs for the day editor and the calendar.
  \<^item> \<open>alarm2_feb_first\<close>: \<^verbatim>\<open>Alarm2Date\<close> is 01/02/2017, the clock is at its initial
    01/01/2016, RJ5 and RJ0 read 0 at every read (\<^verbatim>\<open>PB1pressed\<close> returns 1), PB2 is released;
  \<^item> \<open>main_feb_first\<close>: the same buttons, \<^verbatim>\<open>MainDate\<close> is 01/02/2016;
  \<^item> \<open>alarm2_feb_28\<close>: \<^verbatim>\<open>Alarm2Date\<close> is 28/02/2017, RB0 reads 0 at every read (PB2 is held
    down), PB1 is released;
  \<^item> \<open>main_feb_28\<close>: \<^verbatim>\<open>MainDate\<close> is 28/02/2017.
\<close>

definition alarm2_feb_first :: globals where
  "alarm2_feb_first =
     boot_globals\<lparr>Alarm2Date := \<lparr>day = 1, month = 2, year_short = 17, year_long = 2017\<rparr>,
                  PORTJ_env := (\<lambda>n. 0)\<rparr>"

definition main_feb_first :: globals where
  "main_feb_first =
     boot_globals\<lparr>MainDate := \<lparr>day = 1, month = 2, year_short = 16, year_long = 2016\<rparr>,
                  PORTJ_env := (\<lambda>n. 0)\<rparr>"

definition alarm2_feb_28 :: globals where
  "alarm2_feb_28 =
     boot_globals\<lparr>Alarm2Date := \<lparr>day = 28, month = 2, year_short = 17, year_long = 2017\<rparr>,
                  PORTB_env := (\<lambda>n. 0xFE)\<rparr>"

definition main_feb_28 :: globals where
  "main_feb_28 =
     boot_globals\<lparr>MainDate := \<lparr>day = 28, month = 2, year_short = 17, year_long = 2017\<rparr>\<rparr>"

section \<open>What the buttons, the editors and the menu leave unchanged\<close>

lemma untimed_Timer0_isr: "untimed (Timer0_isr s) = untimed s"
  by (simp add: untimed_def Timer0_isr_def Let_def)

lemma reads_Timer0_isr: "reads (Timer0_isr s) = reads s"
  by (simp add: Timer0_isr_def Let_def)

lemma untimed_debounce_wait: "untimed (debounce_wait s) = untimed s"
proof (induction s rule: debounce_wait.induct)
  case (1 s)
  show ?case
  proof (cases "ms_count1 s < DEBOUNCE_DELAY")
    case True
    with 1 show ?thesis by (subst debounce_wait.simps) (simp add: untimed_Timer0_isr)
  next
    case False
    then show ?thesis by (subst debounce_wait.simps) simp
  qed
qed

lemma reads_debounce_wait: "reads (debounce_wait s) = reads s"
proof (induction s rule: debounce_wait.induct)
  case (1 s)
  show ?case
  proof (cases "ms_count1 s < DEBOUNCE_DELAY")
    case True
    with 1 show ?thesis by (subst debounce_wait.simps) (simp add: reads_Timer0_isr)
  next
    case False
    then show ?thesis by (subst debounce_wait.simps) simp
  qed
qed

lemma untimed_fields:
  assumes "untimed t = untimed s"
  shows "MainTime t = MainTime s" "Alarm1Time t = Alarm1Time s" "Alarm2Time t = Alarm2Time s"
    "MainDate t = MainDate s" "Alarm1Date t = Alarm1Date s" "Alarm2Date t = Alarm2Date s"
    "disp_index t = disp_index s" "Alarm1On t = Alarm1On s" "Alarm2On t = Alarm2On s"
    "disp_U1 t = disp_U1 s" "disp_U2 t = disp_U2 s" "disp_LEDS t = disp_LEDS s"
    "dp_mask t = dp_mask s" "day_rollover t = day_rollover s"
    "mins_rollover t = mins_rollover s" "PIE1_TMR1IE t = PIE1_TMR1IE s"
    "PORTB_env t = PORTB_env s" "PORTC_env t = PORTC_env s" "PORTH_env t = PORTH_env s"
    "PORTJ_env t = PORTJ_env s"
proof -
  have f: "g (untimed t) = g (untimed s)" for g :: "globals \<Rightarrow> 'a"
    using assms by simp
  show "MainTime t = MainTime s" using f [of MainTime] by (simp add: untimed_def)
  show "Alarm1Time t = Alarm1Time s" using f [of Alarm1Time] by (simp add: untimed_def)
  show "Alarm2Time t = Alarm2Time s" using f [of Alarm2Time] by (simp add: untimed_def)
  show "MainDate t = MainDate s" using f [of MainDate] by (simp add: untimed_def)
  show "Alarm1Date t = Alarm1Date s" using f [of Alarm1Date] by (simp add: untimed_def)
  show "Alarm2Date t = Alarm2Date s" using f [of Alarm2Date] by (simp add: untimed_def)
  show "disp_index t = disp_index s" using f [of disp_index] by (simp add: untimed_def)
  show "Alarm1On t = Alarm1On s" using f [of Alarm1On] by (simp add: untimed_def)
  show "Alarm2On t = Alarm2On s" using f [of Alarm2On] by (simp add: untimed_def)
  show "disp_U1 t = disp_U1 s" using f [of disp_U1] by (simp add: untimed_def)
  show "disp_U2 t = disp_U2 s" using f [of disp_U2] by (simp add: untimed_def)
  show "disp_LEDS t = disp_LEDS s" using f [of disp_LEDS] by (simp add: untimed_def)
  show "dp_mask t = dp_mask s" using f [of dp_mask] by (simp add: untimed_def)
  show "day_rollover t = day_rollover s" using f [of day_rollover] by (simp add: untimed_def)
  show "mins_rollover t = mins_rollover s" using f [of mins_rollover] by (simp add: untimed_def)
  show "PIE1_TMR1IE t = PIE1_TMR1IE s" using f [of PIE1_TMR1IE] by (simp add: untimed_def)
  show "PORTB_env t = PORTB_env s" using f [of PORTB_env] by (simp add: untimed_def)
  show "PORTC_env t = PORTC_env s" using f [of PORTC_env] by (simp add: untimed_def)
  show "PORTH_env t = PORTH_env s" using f [of PORTH_env] by (simp add: untimed_def)
  show "PORTJ_env t = PORTJ_env s" using f [of PORTJ_env] by (simp add: untimed_def)
qed

lemmas debounce_wait_frame = untimed_fields [OF untimed_debounce_wait]

lemma PB1pressed_eq:
  "PB1pressed s =
     (if \<not> bit (PORTJ_env s (reads s)) 5
      then (if \<not> bit (PORTJ_env s (Suc (reads s))) 0 then 1 else 0,
            (debounce_wait (s\<lparr>reads := Suc (reads s), ms_count1 := 0\<rparr>))
              \<lparr>reads := Suc (Suc (reads s))\<rparr>)
      else (0, s\<lparr>reads := Suc (reads s)\<rparr>))"
  by (simp add: PB1pressed_def read_PORTJ_def Let_def debounce_wait_frame reads_debounce_wait)

lemma PB2pressed_eq:
  "PB2pressed s =
     (if \<not> bit (PORTB_env s (reads s)) 0
      then (if \<not> bit (PORTB_env s (Suc (reads s))) 0 then 1 else 0,
            (debounce_wait (s\<lparr>reads := Suc (reads s), ms_count1 := 0\<rparr>))
              \<lparr>reads := Suc (Suc (reads s))\<rparr>)
      else (0, s\<lparr>reads := Suc (reads s)\<rparr>))"
  by (simp add: PB2pressed_def read_PORTB_def Let_def debounce_wait_frame reads_debounce_wait)

lemma untimed_upd [simp]:
  "untimed (s\<lparr>reads := n\<rparr>) = untimed s"
  "untimed (s\<lparr>ms_count1 := c\<rparr>) = untimed s"
  by (simp_all add: untimed_def)

lemma untimed_PB1pressed: "untimed (snd (PB1pressed s)) = untimed s"
  by (simp add: PB1pressed_eq untimed_debounce_wait)

lemma untimed_PB2pressed: "untimed (snd (PB2pressed s)) = untimed s"
  by (simp add: PB2pressed_eq untimed_debounce_wait)

lemma untimed_Switches: "untimed (snd (Switches s)) = untimed s"
  by (simp add: Switches_def read_PORTC_def read_PORTH_def Let_def)


lemmas PB1pressed_frame = untimed_fields [OF untimed_PB1pressed]
lemmas PB2pressed_frame = untimed_fields [OF untimed_PB2pressed]
lemmas Switches_frame = untimed_fields [OF untimed_Switches]

lemma TMR1IE_puts [simp]:
  "PIE1_TMR1IE (TIME_put tp t s) = PIE1_TMR1IE s"
  "PIE1_TMR1IE (DATE_put dp d s) = PIE1_TMR1IE s"
  by (cases tp, simp_all) (cases dp, simp_all)

lemma TMR1IE_if_pressed:
  assumes "\<And>s. PIE1_TMR1IE (snd (PB s)) = PIE1_TMR1IE s"
      and "\<And>s. PIE1_TMR1IE (body s) = PIE1_TMR1IE s"
  shows "PIE1_TMR1IE (if_pressed PB cond body s) = PIE1_TMR1IE s"
proof (cases "PB s")
  case (Pair p s1)
  with assms(1) [of s] have "PIE1_TMR1IE s1 = PIE1_TMR1IE s" by simp
  with Pair show ?thesis
    by (simp add: if_pressed_def Delay10KTCYx_def assms(2))
qed

lemma TMR1IE_time_editors:
  "PIE1_TMR1IE (SetSecs tp s) = PIE1_TMR1IE s"
  "PIE1_TMR1IE (SetMins tp s) = PIE1_TMR1IE s"
  "PIE1_TMR1IE (SetHrs tp s) = PIE1_TMR1IE s"
  by (simp_all add: SetSecs_def SetMins_def SetHrs_def Let_def TMR1IE_if_pressed
      PB1pressed_frame PB2pressed_frame)

lemma TMR1IE_date_editors:
  "PIE1_TMR1IE (SetMonth dp s) = PIE1_TMR1IE s"
  "PIE1_TMR1IE (SetYear dp s) = PIE1_TMR1IE s"
  by (simp_all add: SetMonth_def SetYear_def Let_def TMR1IE_if_pressed
      PB1pressed_frame PB2pressed_frame)

lemma TMR1IE_SetDay_inc:
  assumes "SetDay_inc tbl dp s = Some t"
  shows "PIE1_TMR1IE t = PIE1_TMR1IE s"
proof (cases "PB2pressed s")
  case (Pair p s1)
  with PB2pressed_frame(16) [of s] have "PIE1_TMR1IE s1 = PIE1_TMR1IE s" by simp
  with Pair assms show ?thesis
    by (auto simp: SetDay_inc_def Delay10KTCYx_def split: if_splits option.splits)
qed

lemma TMR1IE_SetDay_top:
  assumes "SetDay_top tbl dp s = Some t"
  shows "PIE1_TMR1IE t = PIE1_TMR1IE s"
proof (cases "PB2pressed s")
  case (Pair p s1)
  with PB2pressed_frame(16) [of s] have "PIE1_TMR1IE s1 = PIE1_TMR1IE s" by simp
  with Pair assms show ?thesis
    by (auto simp: SetDay_top_def Delay10KTCYx_def split: if_splits option.splits)
qed

lemma TMR1IE_SetDay_dec:
  assumes "SetDay_dec dp s = Some t"
  shows "PIE1_TMR1IE t = PIE1_TMR1IE s"
  using assms by (auto simp: SetDay_dec_def TMR1IE_if_pressed PB1pressed_frame)

lemma TMR1IE_SetDay_bottom:
  assumes "SetDay_bottom dp s = Some t"
  shows "PIE1_TMR1IE t = PIE1_TMR1IE s"
proof (cases "PB1pressed s")
  case (Pair p s1)
  with PB1pressed_frame(16) [of s] have "PIE1_TMR1IE s1 = PIE1_TMR1IE s" by simp
  with Pair assms show ?thesis
    by (auto simp: SetDay_bottom_def Delay10KTCYx_def split: if_splits option.splits)
qed

lemma TMR1IE_SetDay:
  assumes "SetDay dp s = Some t"
  shows "PIE1_TMR1IE t = PIE1_TMR1IE s"
  using assms
  by (auto simp: SetDay_def split: if_splits bind_splits
      dest!: TMR1IE_SetDay_inc TMR1IE_SetDay_top TMR1IE_SetDay_dec TMR1IE_SetDay_bottom)

lemma TMR1IE_Num2Disp:
  assumes "Num2Disp v s = Some t"
  shows "PIE1_TMR1IE t = PIE1_TMR1IE s"
  using assms by (auto simp: Num2Disp_def Let_def split: if_splits option.splits)

lemma TMR1IE_flash_twice: "PIE1_TMR1IE (flash_twice a b s) = PIE1_TMR1IE s"
  by (simp add: flash_twice_def Delay10KTCYx_def)

lemma TMR1IE_flashes:
  "PIE1_TMR1IE (SecsFlash s) = PIE1_TMR1IE s"
  "PIE1_TMR1IE (MinsFlash s) = PIE1_TMR1IE s"
  "PIE1_TMR1IE (HrsFlash s) = PIE1_TMR1IE s"
  "PIE1_TMR1IE (DayFlash s) = PIE1_TMR1IE s"
  "PIE1_TMR1IE (MonthFlash s) = PIE1_TMR1IE s"
  "PIE1_TMR1IE (YearFlash s) = PIE1_TMR1IE s"
  "PIE1_TMR1IE (Alarm1Flash s) = PIE1_TMR1IE s"
  "PIE1_TMR1IE (Alarm2Flash s) = PIE1_TMR1IE s"
  by (simp_all add: SecsFlash_def MinsFlash_def HrsFlash_def DayFlash_def MonthFlash_def
      YearFlash_def Alarm1Flash_def Alarm2Flash_def TMR1IE_flash_twice)

lemma TMR1IE_toggle_body:
  assumes "\<And>b s. PIE1_TMR1IE (put b s) = PIE1_TMR1IE s"
  shows "PIE1_TMR1IE (toggle_body digit put flag s) = PIE1_TMR1IE s"
proof -
  let ?s1 = "s\<lparr>disp_U2 := DispChars_A, disp_U1 := digit\<rparr>"
  obtain p s2 where a: "PB2pressed ?s1 = (p, s2)" by (cases "PB2pressed ?s1")
  let ?s3 = "if p = 1 then put 1 s2 else s2"
  obtain q s4 where b: "PB1pressed ?s3 = (q, s4)" by (cases "PB1pressed ?s3")
  from a PB2pressed_frame(16) [of ?s1] have "PIE1_TMR1IE s2 = PIE1_TMR1IE s" by simp
  then have "PIE1_TMR1IE ?s3 = PIE1_TMR1IE s" by (simp add: assms)
  with b PB1pressed_frame(16) [of ?s3] have "PIE1_TMR1IE s4 = PIE1_TMR1IE s" by simp
  with a b show ?thesis
    by (simp add: toggle_body_def Delay10KTCYx_def Let_def assms)
qed


lemma enter_edit_result:
  assumes "enter_edit flash shown loc s = Some (l', s')"
      and "\<And>s. PIE1_TMR1IE (flash s) = PIE1_TMR1IE s"
  shows "l' = loc \<and> \<not> PIE1_TMR1IE s'"
  using assms by (auto simp: enter_edit_def Let_def dest!: TMR1IE_Num2Disp)

lemma edit_loop_clock:
  assumes "edit_loop code edit shown here enable_TMR1IE next s = Some (l', s')"
      and "\<And>s t. edit s = Some t \<Longrightarrow> PIE1_TMR1IE t = PIE1_TMR1IE s"
  shows "(l' = here \<and> PIE1_TMR1IE s' = PIE1_TMR1IE s) \<or> (l' = next \<and> PIE1_TMR1IE s')"
proof (cases "Switches s")
  case (Pair sw s1)
  with Switches_frame(16) [of s] have "PIE1_TMR1IE s1 = PIE1_TMR1IE s" by simp
  with Pair assms show ?thesis
    by (auto simp: edit_loop_def enable_TMR1IE_def split: if_splits bind_splits
        dest!: TMR1IE_Num2Disp)
qed

lemma edit_loop_alarm:
  assumes "edit_loop code edit shown here (\<lambda>s. s) next s = Some (l', s')"
      and "\<And>s t. edit s = Some t \<Longrightarrow> PIE1_TMR1IE t = PIE1_TMR1IE s"
  shows "(l' = here \<or> l' = next) \<and> PIE1_TMR1IE s' = PIE1_TMR1IE s"
proof (cases "Switches s")
  case (Pair sw s1)
  with Switches_frame(16) [of s] have "PIE1_TMR1IE s1 = PIE1_TMR1IE s" by simp
  with Pair assms show ?thesis
    by (auto simp: edit_loop_def split: if_splits bind_splits dest!: TMR1IE_Num2Disp)
qed

lemma toggle_loop_result:
  assumes "toggle_loop code body here next s = Some (l', s')"
      and "\<And>s. PIE1_TMR1IE (body s) = PIE1_TMR1IE s"
  shows "(l' = here \<or> l' = next) \<and> PIE1_TMR1IE s' = PIE1_TMR1IE s"
proof (cases "Switches s")
  case (Pair sw s1)
  with Switches_frame(16) [of s] have "PIE1_TMR1IE s1 = PIE1_TMR1IE s" by simp
  with Pair assms show ?thesis
    by (auto simp: toggle_loop_def split: if_splits)
qed

lemma SetAlarm1_result:
  assumes "SetAlarm1 s = (l', s')"
  shows "l' \<in> {Alarm1Secs, Alarm1Mins, Alarm1Hrs, Alarm1Toggle, Alarm1Menu}
         \<and> PIE1_TMR1IE s' = PIE1_TMR1IE s"
proof (cases "Switches s")
  case (Pair sw s1)
  with Switches_frame(16) [of s] have "PIE1_TMR1IE s1 = PIE1_TMR1IE s" by simp
  with Pair assms show ?thesis
    by (auto simp: SetAlarm1_def TMR1IE_flashes split: if_splits)
qed

lemma SetAlarm2_result:
  assumes "SetAlarm2 s = (l', s')"
  shows "l' \<in> {Alarm2Secs, Alarm2Mins, Alarm2Hrs, Alarm2Year, Alarm2Month, Alarm2Day,
               Alarm2Toggle, Alarm2Menu}
         \<and> PIE1_TMR1IE s' = PIE1_TMR1IE s"
proof (cases "Switches s")
  case (Pair sw s1)
  with Switches_frame(16) [of s] have "PIE1_TMR1IE s1 = PIE1_TMR1IE s" by simp
  with Pair assms show ?thesis
    by (auto simp: SetAlarm2_def TMR1IE_flashes split: if_splits)
qed

lemma SetMenu_top_result:
  assumes "SetMenu_top s = Some (l', s')"
  shows "(clock_edit l' \<and> \<not> PIE1_TMR1IE s')
         \<or> (l' \<in> {Alarm1Menu, Alarm2Menu, MenuTop, MenuExit}
            \<and> PIE1_TMR1IE s' = PIE1_TMR1IE s)"
proof (cases "Switches s")
  case a: (Pair sw s1)
  with Switches_frame(16) [of s] have e1: "PIE1_TMR1IE s1 = PIE1_TMR1IE s" by simp
  show ?thesis
  proof (cases "Switches s1")
    case b: (Pair sw2 s2)
    with Switches_frame(16) [of s1] e1 have e2: "PIE1_TMR1IE s2 = PIE1_TMR1IE s" by simp
    from assms a b e1 e2 show ?thesis
      by (auto simp: SetMenu_top_def clock_edit_def TMR1IE_flashes split: if_splits
          dest!: enter_edit_result)
  qed
qed


lemma SetMenu_step_TMR1IE:
  assumes "SetMenu_step l s = Some (l', s')"
  shows "(l = MenuTop \<and> clock_edit l' \<and> \<not> PIE1_TMR1IE s')
         \<or> (clock_edit l \<and> l' = l \<and> PIE1_TMR1IE s' = PIE1_TMR1IE s)
         \<or> (clock_edit l \<and> l' = MenuTop \<and> PIE1_TMR1IE s')
         \<or> (\<not> clock_edit l \<and> \<not> clock_edit l' \<and> PIE1_TMR1IE s' = PIE1_TMR1IE s)"
proof (cases l)
  case MenuTop
  with assms have "SetMenu_top s = Some (l', s')" by simp
  from SetMenu_top_result [OF this] MenuTop show ?thesis
    by (auto simp: clock_edit_def)
next
  case EditSecs
  with assms have e: "edit_loop SECS (\<lambda>s. Some (SetSecs MainTime_ptr s)) (\<lambda>s. secs (MainTime s))
      EditSecs enable_TMR1IE MenuTop s = Some (l', s')" by simp
  have "(l' = EditSecs \<and> PIE1_TMR1IE s' = PIE1_TMR1IE s) \<or> (l' = MenuTop \<and> PIE1_TMR1IE s')"
    by (rule edit_loop_clock [OF e]) (simp add: TMR1IE_time_editors)
  with EditSecs show ?thesis by (auto simp: clock_edit_def)
next
  case EditMins
  with assms have e: "edit_loop MINS (\<lambda>s. Some (SetMins MainTime_ptr s)) (\<lambda>s. mins (MainTime s))
      EditMins enable_TMR1IE MenuTop s = Some (l', s')" by simp
  have "(l' = EditMins \<and> PIE1_TMR1IE s' = PIE1_TMR1IE s) \<or> (l' = MenuTop \<and> PIE1_TMR1IE s')"
    by (rule edit_loop_clock [OF e]) (simp add: TMR1IE_time_editors)
  with EditMins show ?thesis by (auto simp: clock_edit_def)
next
  case EditHrs
  with assms have e: "edit_loop HRS (\<lambda>s. Some (SetHrs MainTime_ptr s)) (\<lambda>s. hrs (MainTime s))
      EditHrs enable_TMR1IE MenuTop s = Some (l', s')" by simp
  have "(l' = EditHrs \<and> PIE1_TMR1IE s' = PIE1_TMR1IE s) \<or> (l' = MenuTop \<and> PIE1_TMR1IE s')"
    by (rule edit_loop_clock [OF e]) (simp add: TMR1IE_time_editors)
  with EditHrs show ?thesis by (auto simp: clock_edit_def)
next
  case EditDay
  with assms have e: "edit_loop DAY (SetDay MainDate_ptr) (\<lambda>s. day (MainDate s))
      EditDay enable_TMR1IE MenuTop s = Some (l', s')" by simp
  have "(l' = EditDay \<and> PIE1_TMR1IE s' = PIE1_TMR1IE s) \<or> (l' = MenuTop \<and> PIE1_TMR1IE s')"
    by (rule edit_loop_clock [OF e]) (rule TMR1IE_SetDay)
  with EditDay show ?thesis by (auto simp: clock_edit_def)
next
  case EditMonth
  with assms have e: "edit_loop MONTH (\<lambda>s. Some (SetMonth MainDate_ptr s)) (\<lambda>s. month (MainDate s))
      EditMonth enable_TMR1IE MenuTop s = Some (l', s')" by simp
  have "(l' = EditMonth \<and> PIE1_TMR1IE s' = PIE1_TMR1IE s) \<or> (l' = MenuTop \<and> PIE1_TMR1IE s')"
    by (rule edit_loop_clock [OF e]) (simp add: TMR1IE_date_editors)
  with EditMonth show ?thesis by (auto simp: clock_edit_def)
next
  case EditYear
  with assms have e: "edit_loop YEAR (\<lambda>s. Some (SetYear MainDate_ptr s)) (\<lambda>s. year_short (MainDate s))
      EditYear enable_TMR1IE MenuTop s = Some (l', s')" by simp
  have "(l' = EditYear \<and> PIE1_TMR1IE s' = PIE1_TMR1IE s) \<or> (l' = MenuTop \<and> PIE1_TMR1IE s')"
    by (rule edit_loop_clock [OF e]) (simp add: TMR1IE_date_editors)
  with EditYear show ?thesis by (auto simp: clock_edit_def)
next
  case Alarm1Menu
  obtain sw s1 where a: "Switches s = (sw, s1)" by (cases "Switches s")
  with Switches_frame(16) [of s] have e: "PIE1_TMR1IE s1 = PIE1_TMR1IE s" by simp
  from assms Alarm1Menu a have "(l', s') = SetAlarm1 s1 \<or> (l', s') = (MenuTop, s1)"
    by (auto split: if_splits)
  then have "\<not> clock_edit l' \<and> PIE1_TMR1IE s' = PIE1_TMR1IE s"
  proof
    assume "(l', s') = SetAlarm1 s1"
    then have "SetAlarm1 s1 = (l', s')" by simp
    from SetAlarm1_result [OF this] e show ?thesis by (auto simp: clock_edit_def)
  next
    assume "(l', s') = (MenuTop, s1)"
    with e show ?thesis by (simp add: clock_edit_def)
  qed
  with Alarm1Menu show ?thesis by (simp add: clock_edit_def)
next
  case Alarm1Secs
  with assms have e: "edit_loop 0x81 (\<lambda>s. Some (SetSecs Alarm1Time_ptr s)) (\<lambda>s. secs (Alarm1Time s))
      Alarm1Secs (\<lambda>s. s) Alarm1Menu s = Some (l', s')" by simp
  have "(l' = Alarm1Secs \<or> l' = Alarm1Menu) \<and> PIE1_TMR1IE s' = PIE1_TMR1IE s"
    by (rule edit_loop_alarm [OF e]) (simp add: TMR1IE_time_editors)
  with Alarm1Secs show ?thesis by (auto simp: clock_edit_def)
next
  case Alarm1Mins
  with assms have e: "edit_loop 0x82 (\<lambda>s. Some (SetMins Alarm1Time_ptr s)) (\<lambda>s. mins (Alarm1Time s))
      Alarm1Mins (\<lambda>s. s) Alarm1Menu s = Some (l', s')" by simp
  have "(l' = Alarm1Mins \<or> l' = Alarm1Menu) \<and> PIE1_TMR1IE s' = PIE1_TMR1IE s"
    by (rule edit_loop_alarm [OF e]) (simp add: TMR1IE_time_editors)
  with Alarm1Mins show ?thesis by (auto simp: clock_edit_def)
next
  case Alarm1Hrs
  with assms have e: "edit_loop 0x84 (\<lambda>s. Some (SetHrs Alarm1Time_ptr s)) (\<lambda>s. hrs (Alarm1Time s))
      Alarm1Hrs (\<lambda>s. s) Alarm1Menu s = Some (l', s')" by simp
  have "(l' = Alarm1Hrs \<or> l' = Alarm1Menu) \<and> PIE1_TMR1IE s' = PIE1_TMR1IE s"
    by (rule edit_loop_alarm [OF e]) (simp add: TMR1IE_time_editors)
  with Alarm1Hrs show ?thesis by (auto simp: clock_edit_def)
next
  case Alarm1Toggle
  with assms have e: "toggle_loop 0x80
      (toggle_body (DispNums ! 1) (\<lambda>b s. s\<lparr>Alarm1On := b\<rparr>) Alarm1On)
      Alarm1Toggle Alarm1Menu s = Some (l', s')" by simp
  have "(l' = Alarm1Toggle \<or> l' = Alarm1Menu) \<and> PIE1_TMR1IE s' = PIE1_TMR1IE s"
    by (rule toggle_loop_result [OF e]) (simp add: TMR1IE_toggle_body)
  with Alarm1Toggle show ?thesis by (auto simp: clock_edit_def)
next
  case Alarm2Menu
  obtain sw s1 where a: "Switches s = (sw, s1)" by (cases "Switches s")
  with Switches_frame(16) [of s] have e: "PIE1_TMR1IE s1 = PIE1_TMR1IE s" by simp
  from assms Alarm2Menu a have "(l', s') = SetAlarm2 s1 \<or> (l', s') = (MenuTop, s1)"
    by (auto split: if_splits)
  then have "\<not> clock_edit l' \<and> PIE1_TMR1IE s' = PIE1_TMR1IE s"
  proof
    assume "(l', s') = SetAlarm2 s1"
    then have "SetAlarm2 s1 = (l', s')" by simp
    from SetAlarm2_result [OF this] e show ?thesis by (auto simp: clock_edit_def)
  next
    assume "(l', s') = (MenuTop, s1)"
    with e show ?thesis by (simp add: clock_edit_def)
  qed
  with Alarm2Menu show ?thesis by (simp add: clock_edit_def)
next
  case Alarm2Secs
  with assms have e: "edit_loop 0x41 (\<lambda>s. Some (SetSecs Alarm2Time_ptr s)) (\<lambda>s. secs (Alarm2Time s))
      Alarm2Secs (\<lambda>s. s) Alarm2Menu s = Some (l', s')" by simp
  have "(l' = Alarm2Secs \<or> l' = Alarm2Menu) \<and> PIE1_TMR1IE s' = PIE1_TMR1IE s"
    by (rule edit_loop_alarm [OF e]) (simp add: TMR1IE_time_editors)
  with Alarm2Secs show ?thesis by (auto simp: clock_edit_def)
next
  case Alarm2Mins
  with assms have e: "edit_loop 0x42 (\<lambda>s. Some (SetMins Alarm2Time_ptr s)) (\<lambda>s. mins (Alarm2Time s))
      Alarm2Mins (\<lambda>s. s) Alarm2Menu s = Some (l', s')" by simp
  have "(l' = Alarm2Mins \<or> l' = Alarm2Menu) \<and> PIE1_TMR1IE s' = PIE1_TMR1IE s"
    by (rule edit_loop_alarm [OF e]) (simp add: TMR1IE_time_editors)
  with Alarm2Mins show ?thesis by (auto simp: clock_edit_def)
next
  case Alarm2Hrs
  with assms have e: "edit_loop 0x44 (\<lambda>s. Some (SetHrs Alarm2Time_ptr s)) (\<lambda>s. hrs (Alarm2Time s))
      Alarm2Hrs (\<lambda>s. s) Alarm2Menu s = Some (l', s')" by simp
  have "(l' = Alarm2Hrs \<or> l' = Alarm2Menu) \<and> PIE1_TMR1IE s' = PIE1_TMR1IE s"
    by (rule edit_loop_alarm [OF e]) (simp add: TMR1IE_time_editors)
  with Alarm2Hrs show ?thesis by (auto simp: clock_edit_def)
next
  case Alarm2Year
  with assms have e: "edit_loop 0x48 (\<lambda>s. Some (SetYear Alarm2Date_ptr s)) (\<lambda>s. year_short (Alarm2Date s))
      Alarm2Year (\<lambda>s. s) Alarm2Menu s = Some (l', s')" by simp
  have "(l' = Alarm2Year \<or> l' = Alarm2Menu) \<and> PIE1_TMR1IE s' = PIE1_TMR1IE s"
    by (rule edit_loop_alarm [OF e]) (simp add: TMR1IE_date_editors)
  with Alarm2Year show ?thesis by (auto simp: clock_edit_def)
next
  case Alarm2Month
  with assms have e: "edit_loop 0x50 (\<lambda>s. Some (SetMonth Alarm2Date_ptr s)) (\<lambda>s. month (Alarm2Date s))
      Alarm2Month (\<lambda>s. s) Alarm2Menu s = Some (l', s')" by simp
  have "(l' = Alarm2Month \<or> l' = Alarm2Menu) \<and> PIE1_TMR1IE s' = PIE1_TMR1IE s"
    by (rule edit_loop_alarm [OF e]) (simp add: TMR1IE_date_editors)
  with Alarm2Month show ?thesis by (auto simp: clock_edit_def)
next
  case Alarm2Day
  with assms have e: "edit_loop 0x60 (SetDay Alarm2Date_ptr) (\<lambda>s. day (Alarm2Date s))
      Alarm2Day (\<lambda>s. s) Alarm2Menu s = Some (l', s')" by simp
  have "(l' = Alarm2Day \<or> l' = Alarm2Menu) \<and> PIE1_TMR1IE s' = PIE1_TMR1IE s"
    by (rule edit_loop_alarm [OF e]) (rule TMR1IE_SetDay)
  with Alarm2Day show ?thesis by (auto simp: clock_edit_def)
next
  case Alarm2Toggle
  with assms have e: "toggle_loop 0x40
      (toggle_body (DispNums ! 2) (\<lambda>b s. s\<lparr>Alarm2On := b\<rparr>) Alarm2On)
      Alarm2Toggle Alarm2Menu s = Some (l', s')" by simp
  have "(l' = Alarm2Toggle \<or> l' = Alarm2Menu) \<and> PIE1_TMR1IE s' = PIE1_TMR1IE s"
    by (rule toggle_loop_result [OF e]) (simp add: TMR1IE_toggle_body)
  with Alarm2Toggle show ?thesis by (auto simp: clock_edit_def)
next
  case MenuExit
  with assms show ?thesis by (auto simp: clock_edit_def)
qed

lemma SetMenu_run_TMR1IE:
  assumes "SetMenu_run n l s = Some (l', s')"
  shows "((clock_edit l \<longrightarrow> \<not> PIE1_TMR1IE s) \<longrightarrow> (clock_edit l' \<longrightarrow> \<not> PIE1_TMR1IE s'))
         \<and> ((PIE1_TMR1IE s \<longleftrightarrow> \<not> clock_edit l) \<longrightarrow> (PIE1_TMR1IE s' \<longleftrightarrow> \<not> clock_edit l'))"
  using assms
proof (induction n arbitrary: l s)
  case 0
  then show ?case by simp
next
  case (Suc n)
  from Suc.prems obtain l1 s1 where
    st: "SetMenu_step l s = Some (l1, s1)" and rn: "SetMenu_run n l1 s1 = Some (l', s')"
    by (auto split: option.splits)
  have top: "\<not> clock_edit MenuTop" by (simp add: clock_edit_def)
  from SetMenu_step_TMR1IE [OF st] Suc.IH [OF rn] top show ?case
    by metis
qed

section \<open>Properties of the seconds clock\<close>

text \<open>
  C3, as stated, fails: the claim has a firing at 59 seconds add exactly one to the
  minute-rollover signal. The signal is an 8-bit \<^verbatim>\<open>char\<close> that only the main loop clears;
  when it stands at 255 the firing leaves it at 0, not at 256.
\<close>

theorem Timer1_isr_rollover_counterexample:
  "secs (MainTime (boot_globals\<lparr>MainTime := \<lparr>hrs = 7, mins = 30, secs = 59\<rparr>,
                                 mins_rollover := 255\<rparr>)) = 59
   \<and> unat (mins_rollover (boot_globals\<lparr>MainTime := \<lparr>hrs = 7, mins = 30, secs = 59\<rparr>,
                                         mins_rollover := 255\<rparr>)) = 255
   \<and> unat (mins_rollover (Timer1_isr (boot_globals
             \<lparr>MainTime := \<lparr>hrs = 7, mins = 30, secs = 59\<rparr>, mins_rollover := 255\<rparr>))) = 0
   \<and> unat (mins_rollover (Timer1_isr (boot_globals
             \<lparr>MainTime := \<lparr>hrs = 7, mins = 30, secs = 59\<rparr>, mins_rollover := 255\<rparr>)))
       \<noteq> unat (mins_rollover (boot_globals\<lparr>MainTime := \<lparr>hrs = 7, mins = 30, secs = 59\<rparr>,
                                              mins_rollover := 255\<rparr>)) + 1"
  by (simp add: Timer1_isr_def boot_globals_def)

text \<open>
  C3, amended. One firing of \<^verbatim>\<open>Timer1_isr\<close> with seconds in 0..58 adds one to the seconds
  and leaves the minute-rollover counter alone; with seconds at 59 it sets the seconds to
  0 and adds one to the 8-bit minute-rollover counter: exactly one more when the counter
  is below 255, and 0 when it is 255. Hours, minutes and the whole of \<open>MainDate\<close> are never
  written.
\<close>

theorem Timer1_isr_tick:
  "(secs (MainTime s) < 59 \<longrightarrow>
      secs (MainTime (Timer1_isr s)) = secs (MainTime s) + 1
      \<and> unat (secs (MainTime (Timer1_isr s))) = unat (secs (MainTime s)) + 1
      \<and> mins_rollover (Timer1_isr s) = mins_rollover s)
   \<and> (secs (MainTime s) = 59 \<longrightarrow>
      secs (MainTime (Timer1_isr s)) = 0
      \<and> mins_rollover (Timer1_isr s) = mins_rollover s + 1
      \<and> (mins_rollover s < 255 \<longrightarrow>
           unat (mins_rollover (Timer1_isr s)) = unat (mins_rollover s) + 1)
      \<and> (mins_rollover s = 255 \<longrightarrow> mins_rollover (Timer1_isr s) = 0))
   \<and> hrs (MainTime (Timer1_isr s)) = hrs (MainTime s)
   \<and> mins (MainTime (Timer1_isr s)) = mins (MainTime s)
   \<and> MainDate (Timer1_isr s) = MainDate s"
proof -
  have a: "unat (x + 1) = unat x + 1" if "x < 59" for x :: c_char
    using that by (simp add: unat_word_ariths word_less_nat_alt)
  have b: "unat (x + 1) = unat x + 1" if "x < 255" for x :: c_char
    using that by (simp add: unat_word_ariths word_less_nat_alt)
  show ?thesis
    by (simp add: Timer1_isr_def Let_def a b)
qed

theorem Timer1_isr_tick_witness:
  "(secs (MainTime (boot_globals\<lparr>MainTime := \<lparr>hrs = 7, mins = 30, secs = 58\<rparr>\<rparr>)) < 59
    \<and> secs (MainTime (Timer1_isr (boot_globals\<lparr>MainTime := \<lparr>hrs = 7, mins = 30, secs = 58\<rparr>\<rparr>))) = 59
    \<and> mins_rollover (Timer1_isr (boot_globals\<lparr>MainTime := \<lparr>hrs = 7, mins = 30, secs = 58\<rparr>\<rparr>)) = 0)
   \<and> (secs (MainTime (boot_globals\<lparr>MainTime := \<lparr>hrs = 7, mins = 30, secs = 59\<rparr>\<rparr>)) = 59
    \<and> mins_rollover (boot_globals\<lparr>MainTime := \<lparr>hrs = 7, mins = 30, secs = 59\<rparr>\<rparr>) < 255
    \<and> secs (MainTime (Timer1_isr (boot_globals\<lparr>MainTime := \<lparr>hrs = 7, mins = 30, secs = 59\<rparr>\<rparr>))) = 0
    \<and> unat (mins_rollover (Timer1_isr (boot_globals\<lparr>MainTime := \<lparr>hrs = 7, mins = 30, secs = 59\<rparr>\<rparr>))) = 1)
   \<and> (secs (MainTime (boot_globals\<lparr>MainTime := \<lparr>hrs = 7, mins = 30, secs = 59\<rparr>,
                                    mins_rollover := 255\<rparr>)) = 59
    \<and> mins_rollover (boot_globals\<lparr>MainTime := \<lparr>hrs = 7, mins = 30, secs = 59\<rparr>,
                                   mins_rollover := 255\<rparr>) = 255
    \<and> mins_rollover (Timer1_isr (boot_globals\<lparr>MainTime := \<lparr>hrs = 7, mins = 30, secs = 59\<rparr>,
                                               mins_rollover := 255\<rparr>)) = 0)"
  using Timer1_isr_tick [of "boot_globals\<lparr>MainTime := \<lparr>hrs = 7, mins = 30, secs = 58\<rparr>\<rparr>"]
        Timer1_isr_tick [of "boot_globals\<lparr>MainTime := \<lparr>hrs = 7, mins = 30, secs = 59\<rparr>\<rparr>"]
        Timer1_isr_tick [of "boot_globals\<lparr>MainTime := \<lparr>hrs = 7, mins = 30, secs = 59\<rparr>,
                                          mins_rollover := 255\<rparr>"]
  by (simp add: boot_globals_def)

section \<open>Properties of the calendar engine\<close>

text \<open>What \<^verbatim>\<open>CalcTime\<close> does when the sum of minutes and rollover count is below 59.\<close>

lemma CalcTime_below_59:
  assumes "mins (MainTime s) + mins_rollover s < 59"
  shows "MainTime (CalcTime s) = (MainTime s)\<lparr>mins := mins (MainTime s) + mins_rollover s\<rparr>"
    and "mins_rollover (CalcTime s) = 0"
    and "day_rollover (CalcTime s) = day_rollover s"
  using assms by (simp_all add: CalcTime_def Let_def)

text \<open>What \<^verbatim>\<open>CalcTime\<close> does when that sum is 59 or more: it always carries into the hours.\<close>

lemma CalcTime_from_59:
  assumes "\<not> mins (MainTime s) + mins_rollover s < 59"
  shows "mins (MainTime (CalcTime s)) = mins (MainTime s) + mins_rollover s - 60"
    and "hrs (MainTime (CalcTime s)) = (if hrs (MainTime s) < 23 then hrs (MainTime s) + 1 else 0)"
    and "mins_rollover (CalcTime s) = 0"
    and "day_rollover (CalcTime s) = (if hrs (MainTime s) < 23 then day_rollover s else 1)"
  using assms by (simp_all add: CalcTime_def Let_def)

text \<open>
  C1. The claim has \<^verbatim>\<open>CalcTime\<close> keep the hour whenever minutes plus rollover count stay
  below 60. At 10:58 with one pending rollover the sum is 59; the code tests the sum
  against 59, not 60, so it stores 59 - 60 in the 8-bit minutes field, which is 255, and
  advances the hour to 11.
\<close>

theorem CalcTime_sum_59:
  "MainTime (CalcTime (boot_globals\<lparr>MainTime := \<lparr>hrs = 10, mins = 58, secs = 0\<rparr>,
                                     mins_rollover := 1\<rparr>))
     = \<lparr>hrs = 11, mins = 255, secs = 0\<rparr>"
  by (simp add: CalcTime_def boot_globals_def)

text \<open>
  C2. The claim has the year advance by one when December wraps. In a year that is no
  leap year the code compares the four-digit year with 99, which no year from 2000 on is
  below: from 31/12/2017 \<^verbatim>\<open>CalcDate\<close> goes to 01/01/2000, not to 01/01/2018.
\<close>

theorem CalcDate_end_of_2017:
  "CalcLeapYear 2017 = 0
   \<and> map_option MainDate
        (CalcDate (boot_globals\<lparr>MainDate := \<lparr>day = 31, month = 12, year_short = 17,
                                              year_long = 2017\<rparr>\<rparr>))
     = Some \<lparr>day = 1, month = 1, year_short = 0, year_long = 2000\<rparr>"
  by (simp add: CalcDate_def CalcDate_wrap_def CalcLeapYear_def c_index_def DaysInMonth_def
      boot_globals_def)

text \<open>
  In a year that is no leap year the December wrap resets every year from 99 on to 2000.
\<close>

lemma CalcDate_december_nonleap:
  assumes "CalcLeapYear (year_long (MainDate s)) = 0"
      and "month (MainDate s) = 12" and "\<not> day (MainDate s) < 31"
      and "\<not> year_long (MainDate s) < 99"
  shows "map_option MainDate (CalcDate s)
         = Some \<lparr>day = 1, month = 1, year_short = 0, year_long = 2000\<rparr>"
  using assms
  by (simp add: CalcDate_def CalcDate_wrap_def c_index_def DaysInMonth_def Let_def)

text \<open>In a leap year the year is incremented on the December wrap, whatever it is.\<close>

lemma CalcDate_december_leap:
  assumes "CalcLeapYear (year_long (MainDate s)) \<noteq> 0"
      and "month (MainDate s) = 12" and "\<not> day (MainDate s) < 31"
  shows "map_option MainDate (CalcDate s)
         = Some \<lparr>day = 1, month = 1, year_short = year_short (MainDate s) + 1,
                 year_long = year_long (MainDate s) + 1\<rparr>"
  using assms
  by (simp add: CalcDate_def CalcDate_wrap_def c_index_def DaysInMonthLeap_def Let_def)

text \<open>
  C4. From 23:59:59 on 31/12/2016, with no minute rollover pending, one firing of
  \<^verbatim>\<open>Timer1_isr\<close> followed by the main loop's two rollover tests (\<^verbatim>\<open>CalcTime\<close>, then
  \<^verbatim>\<open>CalcDate\<close>) gives 00:00:00 on 01/01/2017 with the two-digit year 17 and both rollover
  signals cleared; 2016 is a leap year.
\<close>

theorem new_year_2017:
  assumes "MainTime s = \<lparr>hrs = 23, mins = 59, secs = 59\<rparr>"
      and "MainDate s = \<lparr>day = 31, month = 12, year_short = 16, year_long = 2016\<rparr>"
      and "mins_rollover s = 0"
  shows "CalcLeapYear 2016 = 1
         \<and> (\<exists>s'. main_rollovers (Timer1_isr s) = Some s'
                 \<and> MainTime s' = \<lparr>hrs = 0, mins = 0, secs = 0\<rparr>
                 \<and> MainDate s' = \<lparr>day = 1, month = 1, year_short = 17, year_long = 2017\<rparr>
                 \<and> mins_rollover s' = 0 \<and> day_rollover s' = 0)"
  using assms
  by (simp add: main_rollovers_def Timer1_isr_def CalcTime_def CalcDate_def CalcDate_wrap_def
      CalcLeapYear_def c_index_def DaysInMonthLeap_def Let_def)

theorem new_year_2017_witness:
  "map_option MainTime
     (main_rollovers (Timer1_isr (boot_globals
        \<lparr>MainTime := \<lparr>hrs = 23, mins = 59, secs = 59\<rparr>,
         MainDate := \<lparr>day = 31, month = 12, year_short = 16, year_long = 2016\<rparr>\<rparr>)))
     = Some \<lparr>hrs = 0, mins = 0, secs = 0\<rparr>
   \<and> map_option MainDate
     (main_rollovers (Timer1_isr (boot_globals
        \<lparr>MainTime := \<lparr>hrs = 23, mins = 59, secs = 59\<rparr>,
         MainDate := \<lparr>day = 31, month = 12, year_short = 16, year_long = 2016\<rparr>\<rparr>)))
     = Some \<lparr>day = 1, month = 1, year_short = 17, year_long = 2017\<rparr>"
proof -
  let ?s = "boot_globals
        \<lparr>MainTime := \<lparr>hrs = 23, mins = 59, secs = 59\<rparr>,
         MainDate := \<lparr>day = 31, month = 12, year_short = 16, year_long = 2016\<rparr>\<rparr>"
  have t: "MainTime ?s = \<lparr>hrs = 23, mins = 59, secs = 59\<rparr>" by simp
  have d: "MainDate ?s = \<lparr>day = 31, month = 12, year_short = 16, year_long = 2016\<rparr>" by simp
  have r: "mins_rollover ?s = 0" by (simp add: boot_globals_def)
  from new_year_2017 [OF t d r] show ?thesis by auto
qed

section \<open>Properties of the display\<close>

text \<open>
  C8. \<^verbatim>\<open>Num2Disp\<close> on a value above 99 (a \<^verbatim>\<open>char\<close> is unsigned, so these are all the values
  outside 0..99) shows the glyphs E and r with LED code 1; \<^verbatim>\<open>CurrentDisplay\<close> on an index
  above 5 shows E and r with LED code 3; neither glyph is one of the ten digit patterns.
  On a value up to 99 \<^verbatim>\<open>Num2Disp\<close> shows the digit patterns of its tens and its units,
  both read inside \<^verbatim>\<open>DispNums\<close>.
\<close>

theorem display_error_codes:
  "(v > 99 \<longrightarrow>
      Num2Disp v s
        = Some (s\<lparr>disp_U1 := DispChars_r, disp_U2 := DispChars_E, disp_LEDS := 0x01\<rparr>))
   \<and> (i > 5 \<longrightarrow>
      CurrentDisplay i s
        = Some (s\<lparr>disp_U2 := DispChars_E, disp_U1 := DispChars_r, disp_LEDS := 0x03\<rparr>))
   \<and> DispChars_E \<notin> set DispNums \<and> DispChars_r \<notin> set DispNums
   \<and> (v \<le> 99 \<longrightarrow>
      unat v div 10 < length DispNums \<and> unat v mod 10 < length DispNums
      \<and> Num2Disp v s
        = Some (s\<lparr>disp_U2 := DispNums ! (unat v div 10),
                  disp_U1 := DispNums ! (unat v mod 10)\<rparr>))"
proof -
  have len: "length DispNums = 10" by (simp add: DispNums_def)
  have hi: "Num2Disp v s
        = Some (s\<lparr>disp_U1 := DispChars_r, disp_U2 := DispChars_E, disp_LEDS := 0x01\<rparr>)"
    if "v > 99" using that by (simp add: Num2Disp_def)
  have idx: "CurrentDisplay i s
        = Some (s\<lparr>disp_U2 := DispChars_E, disp_U1 := DispChars_r, disp_LEDS := 0x03\<rparr>)"
    if "i > 5" 
  proof -
    from that have "i \<noteq> 0" "i \<noteq> 1" "i \<noteq> 2" "i \<noteq> 3" "i \<noteq> 4" "i \<noteq> 5" 
      by (auto simp: word_less_nat_alt)
    then show ?thesis by (simp add: CurrentDisplay_def)
  qed
  have glyphs: "DispChars_E \<notin> set DispNums \<and> DispChars_r \<notin> set DispNums"
    by (simp add: DispChars_E_def DispChars_r_def DispNums_def)
  have lo: "unat v div 10 < length DispNums \<and> unat v mod 10 < length DispNums
      \<and> Num2Disp v s
        = Some (s\<lparr>disp_U2 := DispNums ! (unat v div 10),
                  disp_U1 := DispNums ! (unat v mod 10)\<rparr>)" if "v \<le> 99"
  proof -
    from that have b: "unat v \<le> 99" by (simp add: word_le_nat_alt)
    then have t: "unat v div 10 < 10" by simp
    have u: "unat v mod 10 < 10" by simp
    have dt: "unat (v div 10) = unat v div 10" by (simp add: unat_div)
    have du: "unat (v mod 10) = unat v mod 10" by (simp add: unat_mod)
    from that have ng: "\<not> v > 99" by simp
    show ?thesis using t u
      by (simp add: Num2Disp_def ng c_index_def len dt du Let_def)
  qed
  show ?thesis using hi idx glyphs lo by blast
qed

theorem display_error_codes_witness:
  "(100 :: c_char) > 99
   \<and> map_option disp_LEDS (Num2Disp 100 boot_globals) = Some 1
   \<and> map_option disp_U2 (Num2Disp 100 boot_globals) = Some 0x0E
   \<and> map_option disp_U1 (Num2Disp 100 boot_globals) = Some 0x5F
   \<and> (6 :: c_char) > 5
   \<and> map_option disp_LEDS (CurrentDisplay 6 boot_globals) = Some 3
   \<and> (42 :: c_char) \<le> 99
   \<and> map_option disp_U2 (Num2Disp 42 boot_globals) = Some 0x35
   \<and> map_option disp_U1 (Num2Disp 42 boot_globals) = Some 0x4C"
  using display_error_codes [where v = 100 and s = boot_globals and i = 6]
        display_error_codes [where v = 42 and s = boot_globals and i = 6]
  by (simp add: DispChars_E_def DispChars_r_def DispNums_def)

section \<open>Properties of the alarm comparison\<close>

text \<open>
  C7. At a poll the main loop sounds Alarm 1 exactly when hours, minutes and seconds of
  \<open>MainTime\<close> equal those of \<open>Alarm1Time\<close> and \<open>Alarm1On\<close> is set; no date takes part.
  It sounds Alarm 2 exactly when the three time fields and day, month and two-digit year
  all match and \<open>Alarm2On\<close> is set, so one differing date field keeps Alarm 2 silent.
\<close>

theorem alarm_comparison:
  "(Alarm1_fires s \<longleftrightarrow>
      hrs (MainTime s) = hrs (Alarm1Time s) \<and> mins (MainTime s) = mins (Alarm1Time s)
      \<and> secs (MainTime s) = secs (Alarm1Time s) \<and> Alarm1On s \<noteq> 0)
   \<and> Alarm1_fires (s\<lparr>MainDate := d, Alarm1Date := d'\<rparr>) = Alarm1_fires s
   \<and> (Alarm2_fires s \<longleftrightarrow>
      hrs (MainTime s) = hrs (Alarm2Time s) \<and> mins (MainTime s) = mins (Alarm2Time s)
      \<and> secs (MainTime s) = secs (Alarm2Time s)
      \<and> day (MainDate s) = day (Alarm2Date s) \<and> month (MainDate s) = month (Alarm2Date s)
      \<and> year_short (MainDate s) = year_short (Alarm2Date s) \<and> Alarm2On s \<noteq> 0)"
proof -
  have a1: "Alarm1_fires s \<longleftrightarrow>
      hrs (MainTime s) = hrs (Alarm1Time s) \<and> mins (MainTime s) = mins (Alarm1Time s)
      \<and> secs (MainTime s) = secs (Alarm1Time s) \<and> Alarm1On s \<noteq> 0"
    unfolding Alarm1_fires_def CompareTimes_def c_land_def by auto
  have fr: "Alarm1_fires (s\<lparr>MainDate := d, Alarm1Date := d'\<rparr>) = Alarm1_fires s"
    unfolding Alarm1_fires_def CompareTimes_def c_land_def by simp
  have a2: "Alarm2_fires s \<longleftrightarrow>
      hrs (MainTime s) = hrs (Alarm2Time s) \<and> mins (MainTime s) = mins (Alarm2Time s)
      \<and> secs (MainTime s) = secs (Alarm2Time s)
      \<and> day (MainDate s) = day (Alarm2Date s) \<and> month (MainDate s) = month (Alarm2Date s)
      \<and> year_short (MainDate s) = year_short (Alarm2Date s) \<and> Alarm2On s \<noteq> 0"
    unfolding Alarm2_fires_def CompareTimes_def c_land_def by auto
  show ?thesis using a1 fr a2 by blast
qed

theorem alarm_comparison_witness:
  "Alarm1_fires (boot_globals\<lparr>Alarm1On := 1\<rparr>)
   \<and> \<not> Alarm1_fires (boot_globals\<lparr>Alarm1On := 0\<rparr>)
   \<and> Alarm2_fires (boot_globals\<lparr>Alarm2On := 1\<rparr>)
   \<and> \<not> Alarm2_fires (boot_globals\<lparr>Alarm2On := 1,
          Alarm2Date := \<lparr>day = 1, month = 1, year_short = 17, year_long = 2017\<rparr>\<rparr>)"
  using alarm_comparison [of "boot_globals\<lparr>Alarm1On := 1\<rparr>"]
        alarm_comparison [of "boot_globals\<lparr>Alarm1On := 0\<rparr>"]
        alarm_comparison [of "boot_globals\<lparr>Alarm2On := 1\<rparr>"]
        alarm_comparison [of "boot_globals\<lparr>Alarm2On := 1,
          Alarm2Date := \<lparr>day = 1, month = 1, year_short = 17, year_long = 2017\<rparr>\<rparr>"]
  by (simp add: boot_globals_def)

section \<open>Properties of the debounce functions\<close>

text \<open>What the two functions return, in terms of the two samples they take.\<close>

lemma PB2pressed_debounced:
  "fst (PB2pressed s)
     = (if \<not> bit (PORTB_env s (reads s)) 0 \<and> \<not> bit (PORTB_env s (Suc (reads s))) 0
        then 1 else 0)"
  by (simp add: PB2pressed_eq)

lemma PB1pressed_second_sample:
  "fst (PB1pressed s)
     = (if \<not> bit (PORTJ_env s (reads s)) 5 \<and> \<not> bit (PORTJ_env s (Suc (reads s))) 0
        then 1 else 0)"
  by (simp add: PB1pressed_eq)

text \<open>When the first sample is asserted, the wait ends with \<^verbatim>\<open>ms_count1\<close> at 25.\<close>

lemma debounce_wait_counts_to_25:
  "ms_count1 s \<le> 25 \<Longrightarrow> ms_count1 (debounce_wait s) = 25"
proof (induction s rule: debounce_wait.induct)
  case (1 s)
  show ?case
  proof (cases "ms_count1 s < DEBOUNCE_DELAY")
    case True
    then have "ms_count1 (Timer0_isr s) \<le> 25"
      by (simp add: ms_count1_Timer0_isr word_less_nat_alt word_le_nat_alt unat_word_ariths)
    with 1 True show ?thesis by (subst debounce_wait.simps) simp
  next
    case False
    with 1 show ?thesis by (subst debounce_wait.simps) simp
  qed
qed

lemma PB2pressed_waits:
  "\<not> bit (PORTB_env s (reads s)) 0 \<Longrightarrow> ms_count1 (snd (PB2pressed s)) = 25"
  by (simp add: PB2pressed_eq debounce_wait_counts_to_25)

lemma PB1pressed_waits:
  "\<not> bit (PORTJ_env s (reads s)) 5 \<Longrightarrow> ms_count1 (snd (PB1pressed s)) = 25"
  by (simp add: PB1pressed_eq debounce_wait_counts_to_25)


text \<open>
  C5. The claim has each function sample the same line twice. \<^verbatim>\<open>PB2pressed\<close> does (RB0
  both times); \<^verbatim>\<open>PB1pressed\<close> samples RJ5 first and RJ0 after the wait. So a press of PB1
  that is over before the wait ends is reported as pressed when RJ0 reads 0, and a press
  held through the wait is reported as not pressed when RJ0 reads 1.
\<close>

theorem PB1pressed_resamples_RJ0:
  "\<not> bit (PORTJ_env pb1_transient 0) 5 \<and> bit (PORTJ_env pb1_transient 1) 5
   \<and> fst (PB1pressed pb1_transient) = 1
   \<and> \<not> bit (PORTJ_env pb1_held 0) 5 \<and> \<not> bit (PORTJ_env pb1_held 1) 5
   \<and> fst (PB1pressed pb1_held) = 0"
  by (simp add: PB1pressed_eq pb1_transient_def pb1_held_def boot_globals_def)

section \<open>Properties of the settings menu\<close>

lemma SetMenu_run_numeral:
  "SetMenu_run (numeral k) l s =
     (case SetMenu_step l s of
        None \<Rightarrow> None
      | Some (l', s') \<Rightarrow> SetMenu_run (pred_numeral k) l' s')"
  by (simp add: numeral_eq_Suc)

lemma menu_secs_run1:
  "\<exists>s1. SetMenu_run 1 MenuTop menu_secs = Some (EditSecs, s1)"
  by (simp add: menu_secs_def boot_globals_def
      SetMenu_top_def Switches_def read_PORTC_def read_PORTH_def enter_edit_def SecsFlash_def
      flash_twice_def Delay10KTCYx_def Num2Disp_def c_index_def DispNums_def Let_def)

lemma menu_secs_run3:
  "\<exists>s3. SetMenu_run 3 MenuTop menu_secs = Some (MenuTop, s3)"
  by (simp add: SetMenu_run_numeral menu_secs_def boot_globals_def
      SetMenu_top_def Switches_def read_PORTC_def read_PORTH_def enter_edit_def SecsFlash_def
      flash_twice_def Delay10KTCYx_def Num2Disp_def c_index_def DispNums_def Let_def
      edit_loop_def SetSecs_def if_pressed_def PB1pressed_eq PB2pressed_eq enable_TMR1IE_def)

lemma menu_alarm1_secs_run2:
  "\<exists>s2. SetMenu_run 2 MenuTop menu_alarm1_secs = Some (Alarm1Secs, s2)"
  by (simp add: SetMenu_run_numeral alarm_edit_def menu_alarm1_secs_def boot_globals_def
      SetMenu_top_def Switches_def read_PORTC_def read_PORTH_def Alarm1Flash_def
      flash_twice_def Delay10KTCYx_def SetAlarm1_def SecsFlash_def Let_def)

text \<open>
  C6, as stated, fails: with the switches at \<^verbatim>\<open>ALARM1\<close> and then at \<^verbatim>\<open>ALARM1 | SECS\<close> the
  menu is, after two steps, in the seconds editor of Alarm 1, an edit state, and Timer1's
  interrupt is still enabled. Neither the alarm cases of \<^verbatim>\<open>SetMenu\<close> nor \<^verbatim>\<open>SetAlarm1\<close> and
  \<^verbatim>\<open>SetAlarm2\<close> write the enable bit.
\<close>

theorem SetMenu_alarm_edit_counterexample:
  "alarm_edit Alarm1Secs
   \<and> PIE1_TMR1IE menu_alarm1_secs
   \<and> map_option fst (SetMenu_run 2 MenuTop menu_alarm1_secs) = Some Alarm1Secs
   \<and> map_option (PIE1_TMR1IE \<circ> snd) (SetMenu_run 2 MenuTop menu_alarm1_secs) = Some True"
  by (simp add: SetMenu_run_numeral alarm_edit_def menu_alarm1_secs_def boot_globals_def
      SetMenu_top_def Switches_def read_PORTC_def read_PORTH_def Alarm1Flash_def
      flash_twice_def Delay10KTCYx_def SetAlarm1_def SecsFlash_def Let_def)

text \<open>
  C6, amended. Of one step of the menu: going from the top of \<^verbatim>\<open>SetMenu\<close> into one of the
  six clock editors clears Timer1's interrupt enable; a round inside a clock editor leaves
  it as it is; leaving a clock editor sets it; every other step, those of the alarm menus
  and their edit and toggle loops among them, leaves it as it is. Of a run of any length
  from the top of \<^verbatim>\<open>SetMenu\<close>: inside a clock editor the enable bit is clear, and when it was
  set on entry to \<^verbatim>\<open>SetMenu\<close> it is set at every location that is not a clock editor, so in
  the alarm editors and after \<^verbatim>\<open>SetMenu\<close> has returned.
\<close>

theorem SetMenu_freezes_clock_edits:
  "(SetMenu_step l0 s0 = Some (l1, s1) \<longrightarrow>
      (l0 = MenuTop \<and> clock_edit l1 \<and> \<not> PIE1_TMR1IE s1)
      \<or> (clock_edit l0 \<and> l1 = l0 \<and> PIE1_TMR1IE s1 = PIE1_TMR1IE s0)
      \<or> (clock_edit l0 \<and> l1 = MenuTop \<and> PIE1_TMR1IE s1)
      \<or> (\<not> clock_edit l0 \<and> \<not> clock_edit l1 \<and> PIE1_TMR1IE s1 = PIE1_TMR1IE s0))
   \<and> (SetMenu_run n MenuTop s = Some (l, s') \<longrightarrow>
      (clock_edit l \<longrightarrow> \<not> PIE1_TMR1IE s')
      \<and> (PIE1_TMR1IE s \<longrightarrow> \<not> clock_edit l \<longrightarrow> PIE1_TMR1IE s')
      \<and> (PIE1_TMR1IE s \<longrightarrow> alarm_edit l \<longrightarrow> PIE1_TMR1IE s'))"
proof -
  have top: "\<not> clock_edit MenuTop" by (simp add: clock_edit_def)
  have al: "\<not> clock_edit l" if "alarm_edit l"
    using that by (auto simp: alarm_edit_def clock_edit_def)
  have run: "(clock_edit l \<longrightarrow> \<not> PIE1_TMR1IE s')
      \<and> (PIE1_TMR1IE s \<longrightarrow> \<not> clock_edit l \<longrightarrow> PIE1_TMR1IE s')
      \<and> (PIE1_TMR1IE s \<longrightarrow> alarm_edit l \<longrightarrow> PIE1_TMR1IE s')"
    if "SetMenu_run n MenuTop s = Some (l, s')"
    using SetMenu_run_TMR1IE [OF that] top al by blast
  show ?thesis using SetMenu_step_TMR1IE [of l0 s0 l1 s1] run by blast
qed

theorem SetMenu_freezes_clock_edits_witness:
  "PIE1_TMR1IE menu_secs
   \<and> clock_edit EditSecs
   \<and> map_option fst (SetMenu_step MenuTop menu_secs) = Some EditSecs
   \<and> map_option (PIE1_TMR1IE \<circ> snd) (SetMenu_step MenuTop menu_secs) = Some False
   \<and> map_option fst (SetMenu_run 1 MenuTop menu_secs) = Some EditSecs
   \<and> map_option (PIE1_TMR1IE \<circ> snd) (SetMenu_run 1 MenuTop menu_secs) = Some False
   \<and> \<not> clock_edit MenuTop
   \<and> map_option fst (SetMenu_run 3 MenuTop menu_secs) = Some MenuTop
   \<and> map_option (PIE1_TMR1IE \<circ> snd) (SetMenu_run 3 MenuTop menu_secs) = Some True
   \<and> PIE1_TMR1IE menu_alarm1_secs
   \<and> \<not> clock_edit Alarm1Secs \<and> alarm_edit Alarm1Secs
   \<and> map_option fst (SetMenu_run 2 MenuTop menu_alarm1_secs) = Some Alarm1Secs
   \<and> map_option (PIE1_TMR1IE \<circ> snd) (SetMenu_run 2 MenuTop menu_alarm1_secs) = Some True"
proof -
  obtain s1 where r1: "SetMenu_run 1 MenuTop menu_secs = Some (EditSecs, s1)"
    using menu_secs_run1 by blast
  then have st: "SetMenu_step MenuTop menu_secs = Some (EditSecs, s1)"
    by (auto split: option.splits)
  obtain s3 where r3: "SetMenu_run 3 MenuTop menu_secs = Some (MenuTop, s3)"
    using menu_secs_run3 by blast
  obtain s2 where r2: "SetMenu_run 2 MenuTop menu_alarm1_secs = Some (Alarm1Secs, s2)"
    using menu_alarm1_secs_run2 by blast
  have e: "PIE1_TMR1IE menu_secs" "PIE1_TMR1IE menu_alarm1_secs"
    by (simp_all add: menu_secs_def menu_alarm1_secs_def boot_globals_def)
  have c: "clock_edit EditSecs" "\<not> clock_edit MenuTop" "\<not> clock_edit Alarm1Secs"
          "alarm_edit Alarm1Secs"
    by (simp_all add: clock_edit_def alarm_edit_def)
  from SetMenu_freezes_clock_edits [of MenuTop menu_secs EditSecs s1 1 menu_secs EditSecs s1]
       SetMenu_freezes_clock_edits [of MenuTop menu_secs EditSecs s1 3 menu_secs MenuTop s3]
       SetMenu_freezes_clock_edits [of MenuTop menu_secs EditSecs s1 2 menu_alarm1_secs
         Alarm1Secs s2]
       r1 st r3 r2 e c
  show ?thesis by simp
qed

section \<open>Properties of the day editor\<close>

text \<open>The four statements of \<^verbatim>\<open>SetDay\<close> in terms of what the button functions return.\<close>

lemma DATE_at_untimed: "DATE_at dd (untimed s) = DATE_at dd s"
  by (cases dd) (simp_all add: untimed_def)

lemma DATE_at_cong: "untimed t = untimed s \<Longrightarrow> DATE_at dd t = DATE_at dd s"
  using DATE_at_untimed [of dd t] DATE_at_untimed [of dd s] by simp

lemma untimed_set_day: "untimed (set_day dd x s) = set_day dd x (untimed s)"
  by (cases dd) (simp_all add: set_day_def untimed_def)

lemma set_day_twice: "set_day dd y (set_day dd x s) = set_day dd y s"
  by (cases dd) (simp_all add: set_day_def)

lemma set_day_same: "day (DATE_at dd s) = x \<Longrightarrow> set_day dd x s = s"
  by (cases dd) (auto simp: set_day_def)

lemma set_day_untimed_same: "day (DATE_at dd s) = x \<Longrightarrow> set_day dd x (untimed s) = untimed s"
  using set_day_same [of dd "untimed s" x] by (simp add: DATE_at_untimed)

lemma set_day_fields:
  "DATE_at dd (set_day dd x s) = (DATE_at dd s)\<lparr>day := x\<rparr>"
  "month (MainDate (set_day dd x s)) = month (MainDate s)"
  "PORTB_env (set_day dd x s) = PORTB_env s"
  "PORTJ_env (set_day dd x s) = PORTJ_env s"
  by (cases dd; simp add: set_day_def)+

lemma after_set_day:
  assumes "untimed t = untimed (set_day dd x s)"
  shows "DATE_at dd t = (DATE_at dd s)\<lparr>day := x\<rparr>"
    and "month (MainDate t) = month (MainDate s)"
    and "PORTB_env t = PORTB_env s"
    and "PORTJ_env t = PORTJ_env s"
  using DATE_at_cong [OF assms, of dd] untimed_fields(4,17,20) [OF assms]
  by (simp_all add: set_day_fields)

lemma untimed_set_day_step:
  assumes "untimed t = untimed (set_day dd x s)" and "untimed u = untimed (set_day dd y t)"
  shows "untimed u = untimed (set_day dd y s)"
  using assms by (simp add: untimed_set_day set_day_twice)

lemma SetDay_inc_eq:
  "SetDay_inc tbl dd s =
     (if fst (PB2pressed s) \<noteq> 0
      then (case c_index tbl (month (DATE_at dd s)) of
              None \<Rightarrow> None
            | Some n \<Rightarrow>
                Some (if day (DATE_at dd s) < n
                      then set_day dd (day (DATE_at dd s) + 1) (snd (PB2pressed s))
                      else snd (PB2pressed s)))
      else Some (snd (PB2pressed s)))"
proof (cases "PB2pressed s")
  case (Pair p s1)
  with DATE_at_cong [OF untimed_PB2pressed, of dd s] have "DATE_at dd s1 = DATE_at dd s"
    by simp
  with Pair show ?thesis
    by (simp add: SetDay_inc_def set_day_def Delay10KTCYx_def split: option.splits)
qed

lemma SetDay_top_eq:
  "SetDay_top tbl dd s =
     (if fst (PB2pressed s) \<noteq> 0
      then (case c_index tbl (month (DATE_at dd s)) of
              None \<Rightarrow> None
            | Some n \<Rightarrow>
                Some (if day (DATE_at dd s) = n
                      then set_day dd 1 (snd (PB2pressed s))
                      else snd (PB2pressed s)))
      else Some (snd (PB2pressed s)))"
proof (cases "PB2pressed s")
  case (Pair p s1)
  with DATE_at_cong [OF untimed_PB2pressed, of dd s] have "DATE_at dd s1 = DATE_at dd s"
    by simp
  with Pair show ?thesis
    by (simp add: SetDay_top_def set_day_def Delay10KTCYx_def split: option.splits)
qed

lemma SetDay_dec_eq:
  "SetDay_dec dd s =
     Some (if fst (PB1pressed s) \<noteq> 0 \<and> day (DATE_at dd s) > 1
           then set_day dd (day (DATE_at dd s) - 1) (snd (PB1pressed s))
           else snd (PB1pressed s))"
proof (cases "PB1pressed s")
  case (Pair p s1)
  with DATE_at_cong [OF untimed_PB1pressed, of dd s] have "DATE_at dd s1 = DATE_at dd s"
    by simp
  with Pair show ?thesis
    by (simp add: SetDay_dec_def if_pressed_def set_day_def Delay10KTCYx_def)
qed

lemma SetDay_bottom_eq:
  "SetDay_bottom dd s =
     (if fst (PB1pressed s) \<noteq> 0 \<and> day (DATE_at dd s) = 1
      then map_option (\<lambda>n. set_day dd n (snd (PB1pressed s)))
             (c_index DaysInMonth (month (MainDate s)))
      else Some (snd (PB1pressed s)))"
proof (cases "PB1pressed s")
  case (Pair p s1)
  with DATE_at_cong [OF untimed_PB1pressed, of dd s] PB1pressed_frame(4) [of s]
  have "DATE_at dd s1 = DATE_at dd s" "MainDate s1 = MainDate s"
    by simp_all
  with Pair show ?thesis
    by (simp add: SetDay_bottom_def set_day_def Delay10KTCYx_def split: option.splits)
qed

lemma SetDay_seq:
  "SetDay dd s =
     (SetDay_inc DaysInMonthLeap dd s
        \<bind> SetDay_top (if CalcLeapYear (year_long (DATE_at dd s)) = 1
                           then DaysInMonthLeap else DaysInMonth) dd
        \<bind> SetDay_dec dd \<bind> SetDay_bottom dd)"
  by (simp add: SetDay_def)

text \<open>
  C10. Whatever \<^verbatim>\<open>DATE\<close> variable \<^verbatim>\<open>SetDay\<close> edits and whatever its year: when its day is 1,
  PB2 is not pressed and \<^verbatim>\<open>PB1pressed\<close> reports a press, the day becomes
  \<^verbatim>\<open>DaysInMonth[MainDate.month]\<close>, the entry of the non-leap table for the month of the
  clock, and the month of the edited variable stays as it is. (\<^verbatim>\<open>MainDate.month\<close> is
  taken inside the table.)
\<close>

theorem SetDay_wraps_to_MainDate_month:
  assumes pb2: "\<forall>n. bit (PORTB_env s n) 0"
      and pb1: "\<forall>n. \<not> bit (PORTJ_env s n) 5 \<and> \<not> bit (PORTJ_env s n) 0"
      and d1: "day (DATE_at dd s) = 1"
      and m: "unat (month (MainDate s)) < length DaysInMonth"
  shows "\<exists>s'. SetDay dd s = Some s'
              \<and> day (DATE_at dd s') = DaysInMonth ! unat (month (MainDate s))
              \<and> month (DATE_at dd s') = month (DATE_at dd s)"
proof -
  let ?tbl = "if CalcLeapYear (year_long (DATE_at dd s)) = 1 then DaysInMonthLeap
              else DaysInMonth"
  let ?n = "DaysInMonth ! unat (month (MainDate s))"
  define s1 where "s1 = snd (PB2pressed s)"
  define s2 where "s2 = snd (PB2pressed s1)"
  define s3 where "s3 = snd (PB1pressed s2)"
  define s4 where "s4 = snd (PB1pressed s3)"
  have u1: "untimed s1 = untimed s" by (simp add: s1_def untimed_PB2pressed)
  have u2: "untimed s2 = untimed s" by (simp add: s2_def untimed_PB2pressed u1)
  have u3: "untimed s3 = untimed s" by (simp add: s3_def untimed_PB1pressed u2)
  have u4: "untimed s4 = untimed s" by (simp add: s4_def untimed_PB1pressed u3)
  have i: "SetDay_inc DaysInMonthLeap dd s = Some s1"
    using pb2 by (simp add: SetDay_inc_eq PB2pressed_debounced s1_def)
  have t: "SetDay_top ?tbl dd s1 = Some s2"
    using pb2 untimed_fields(17) [OF u1]
    by (simp add: SetDay_top_eq PB2pressed_debounced s2_def)
  have d: "SetDay_dec dd s2 = Some s3"
    using d1 DATE_at_cong [OF u2, of dd] by (simp add: SetDay_dec_eq s3_def)
  have b: "SetDay_bottom dd s3 = Some (set_day dd ?n s4)"
    using pb1 d1 m DATE_at_cong [OF u3, of dd] untimed_fields(4,20) [OF u3]
    by (simp add: SetDay_bottom_eq PB1pressed_second_sample s4_def c_index_def)
  have r: "SetDay dd s = Some (set_day dd ?n s4)"
    by (simp add: SetDay_seq i t d b)
  have "DATE_at dd (set_day dd ?n s4) = (DATE_at dd s)\<lparr>day := ?n\<rparr>"
    using DATE_at_cong [OF u4, of dd] by (simp add: set_day_fields)
  with r show ?thesis by simp
qed



theorem SetDay_wraps_to_MainDate_month_witness:
  "month (MainDate alarm2_feb_first) = 1
   \<and> map_option (day \<circ> Alarm2Date) (SetDay Alarm2Date_ptr alarm2_feb_first) = Some 31
   \<and> map_option (month \<circ> Alarm2Date) (SetDay Alarm2Date_ptr alarm2_feb_first) = Some 2
   \<and> CalcLeapYear (year_long (MainDate main_feb_first)) = 1
   \<and> map_option (day \<circ> MainDate) (SetDay MainDate_ptr main_feb_first) = Some 28"
proof -
  have a: "\<forall>n. bit (PORTB_env alarm2_feb_first n) 0"
          "\<forall>n. \<not> bit (PORTJ_env alarm2_feb_first n) 5 \<and> \<not> bit (PORTJ_env alarm2_feb_first n) 0"
          "day (DATE_at Alarm2Date_ptr alarm2_feb_first) = 1"
          "unat (month (MainDate alarm2_feb_first)) < length DaysInMonth"
    by (simp_all add: alarm2_feb_first_def boot_globals_def DaysInMonth_def)
  have b: "\<forall>n. bit (PORTB_env main_feb_first n) 0"
          "\<forall>n. \<not> bit (PORTJ_env main_feb_first n) 5 \<and> \<not> bit (PORTJ_env main_feb_first n) 0"
          "day (DATE_at MainDate_ptr main_feb_first) = 1"
          "unat (month (MainDate main_feb_first)) < length DaysInMonth"
    by (simp_all add: main_feb_first_def boot_globals_def DaysInMonth_def)
  have c: "month (MainDate alarm2_feb_first) = 1"
          "month (Alarm2Date alarm2_feb_first) = 2"
          "month (MainDate main_feb_first) = 2"
          "CalcLeapYear (year_long (MainDate main_feb_first)) = 1"
    by (simp_all add: alarm2_feb_first_def main_feb_first_def boot_globals_def
        CalcLeapYear_def)
  from SetDay_wraps_to_MainDate_month [OF a] SetDay_wraps_to_MainDate_month [OF b] c
  show ?thesis by (auto simp: DaysInMonth_def)
qed

section \<open>Which table the non-leap branches consult\<close>

lemma PB1pressed_released:
  "bit (PORTJ_env s (reads s)) 5 \<Longrightarrow> fst (PB1pressed s) = 0"
  by (simp add: PB1pressed_eq)

lemma SetDay_nonleap_PB2_held:
  assumes pb2: "\<forall>n. \<not> bit (PORTB_env s n) 0"
      and pb1: "\<forall>n. bit (PORTJ_env s n) 5"
      and nl: "CalcLeapYear (year_long (DATE_at dd s)) \<noteq> 1"
      and m: "unat (month (DATE_at dd s)) < length DaysInMonth"
  shows "\<exists>s'. SetDay dd s = Some s'
           \<and> DATE_at dd s'
               = (DATE_at dd s)\<lparr>day :=
                   (let d1 = (if day (DATE_at dd s)
                                 < DaysInMonthLeap ! unat (month (DATE_at dd s))
                              then day (DATE_at dd s) + 1 else day (DATE_at dd s))
                    in if d1 = DaysInMonth ! unat (month (DATE_at dd s)) then 1 else d1)\<rparr>"
proof -
  let ?m = "unat (month (DATE_at dd s))"
  let ?d = "day (DATE_at dd s)"
  define d1 where "d1 = (if ?d < DaysInMonthLeap ! ?m then ?d + 1 else ?d)"
  define d2 where "d2 = (if d1 = DaysInMonth ! ?m then 1 else d1)"
  have len: "length DaysInMonthLeap = length DaysInMonth"
    by (simp add: DaysInMonth_def DaysInMonthLeap_def)
  define s1 where
    "s1 = (if ?d < DaysInMonthLeap ! ?m then set_day dd (?d + 1) (snd (PB2pressed s))
           else snd (PB2pressed s))"
  have i: "SetDay_inc DaysInMonthLeap dd s = Some s1"
    using pb2 m len by (simp add: SetDay_inc_eq PB2pressed_debounced s1_def c_index_def)
  have u1: "untimed s1 = untimed (set_day dd d1 s)"
    by (simp add: s1_def d1_def untimed_set_day untimed_PB2pressed set_day_untimed_same)
  note a1 = after_set_day [OF u1]
  define s2 where
    "s2 = (if d1 = DaysInMonth ! ?m then set_day dd 1 (snd (PB2pressed s1))
           else snd (PB2pressed s1))"
  have t: "SetDay_top DaysInMonth dd s1 = Some s2"
    using pb2 m a1 by (simp add: SetDay_top_eq PB2pressed_debounced s2_def c_index_def)
  have u2': "untimed s2 = untimed (set_day dd d2 s1)"
    using a1(1)
    by (simp add: s2_def d2_def untimed_set_day untimed_PB2pressed set_day_untimed_same)
  have u2: "untimed s2 = untimed (set_day dd d2 s)"
    by (rule untimed_set_day_step [OF u1 u2'])
  note a2 = after_set_day [OF u2]
  define s3 where "s3 = snd (PB1pressed s2)"
  have d: "SetDay_dec dd s2 = Some s3"
    using pb1 a2 by (simp add: SetDay_dec_eq PB1pressed_released s3_def)
  have u3: "untimed s3 = untimed (set_day dd d2 s)"
    by (simp add: s3_def untimed_PB1pressed u2)
  note a3 = after_set_day [OF u3]
  define s4 where "s4 = snd (PB1pressed s3)"
  have b: "SetDay_bottom dd s3 = Some s4"
    using pb1 a3 by (simp add: SetDay_bottom_eq PB1pressed_released s4_def)
  have u4: "untimed s4 = untimed (set_day dd d2 s)"
    by (simp add: s4_def untimed_PB1pressed u3)
  have r: "SetDay dd s = Some s4"
    using nl by (simp add: SetDay_seq i t d b)
  from after_set_day(1) [OF u4] have "DATE_at dd s4 = (DATE_at dd s)\<lparr>day := d2\<rparr>" by simp
  with r show ?thesis by (simp add: d2_def d1_def Let_def)
qed

lemma CalcDate_nonleap:
  assumes "CalcLeapYear (year_long (MainDate s)) = 0"
      and "unat (month (MainDate s)) < length DaysInMonth"
  shows "\<exists>s'. CalcDate s = Some s'
           \<and> (if day (MainDate s) < DaysInMonth ! unat (month (MainDate s))
               then MainDate s' = (MainDate s)\<lparr>day := day (MainDate s) + 1\<rparr>
               else if month (MainDate s) < 12
               then MainDate s' = (MainDate s)\<lparr>day := 1, month := month (MainDate s) + 1\<rparr>
               else day (MainDate s') = 1 \<and> month (MainDate s') = 1)"
  using assms by (simp add: CalcDate_def CalcDate_wrap_def c_index_def Let_def)

text \<open>
  C9, as stated, fails for \<^verbatim>\<open>CalcDate\<close>: on 28/02/2017, not a leap year, the leap table
  has 29 for the month and 28 is below it, yet \<^verbatim>\<open>CalcDate\<close> does not increment the day: it
  goes to 01/03/2017. Its non-leap branch has one test, against \<^verbatim>\<open>DaysInMonth\<close>.
\<close>

theorem CalcDate_nonleap_counterexample:
  "CalcLeapYear (year_long (MainDate main_feb_28)) = 0
   \<and> c_index DaysInMonthLeap (month (MainDate main_feb_28)) = Some 29
   \<and> day (MainDate main_feb_28) < 29
   \<and> map_option MainDate (CalcDate main_feb_28)
       = Some \<lparr>day = 1, month = 3, year_short = 17, year_long = 2017\<rparr>"
  by (simp add: main_feb_28_def boot_globals_def CalcLeapYear_def CalcDate_def
      CalcDate_wrap_def c_index_def DaysInMonth_def DaysInMonthLeap_def)

text \<open>
  C9, amended. In a year that is no leap year \<^verbatim>\<open>CalcDate\<close> decides with one table: when
  the day is below the month's entry in \<^verbatim>\<open>DaysInMonth\<close> it increments the day and changes
  nothing else of the date; otherwise it sets the day to 1 and advances the month, from
  12 to 1. \<^verbatim>\<open>SetDay\<close> on a date whose year is no leap year, with PB2 held down and PB1
  released, uses two tables: it increments the day when it is below the month's entry in
  \<^verbatim>\<open>DaysInMonthLeap\<close> and then sets it to 1 when it equals the month's entry in
  \<^verbatim>\<open>DaysInMonth\<close>; month and year of the edited date stay as they are.
\<close>

theorem nonleap_tables:
  "(CalcLeapYear (year_long (MainDate s)) = 0
      \<and> unat (month (MainDate s)) < length DaysInMonth \<longrightarrow>
      (\<exists>s'. CalcDate s = Some s'
           \<and> (if day (MainDate s) < DaysInMonth ! unat (month (MainDate s))
               then MainDate s' = (MainDate s)\<lparr>day := day (MainDate s) + 1\<rparr>
               else if month (MainDate s) < 12
               then MainDate s' = (MainDate s)\<lparr>day := 1, month := month (MainDate s) + 1\<rparr>
               else day (MainDate s') = 1 \<and> month (MainDate s') = 1)))
   \<and> ((\<forall>n. \<not> bit (PORTB_env t n) 0) \<and> (\<forall>n. bit (PORTJ_env t n) 5)
      \<and> CalcLeapYear (year_long (DATE_at dd t)) \<noteq> 1
      \<and> unat (month (DATE_at dd t)) < length DaysInMonth \<longrightarrow>
      (\<exists>t'. SetDay dd t = Some t'
           \<and> DATE_at dd t'
               = (DATE_at dd t)\<lparr>day :=
                   (let d1 = (if day (DATE_at dd t)
                                 < DaysInMonthLeap ! unat (month (DATE_at dd t))
                              then day (DATE_at dd t) + 1 else day (DATE_at dd t))
                    in if d1 = DaysInMonth ! unat (month (DATE_at dd t)) then 1 else d1)\<rparr>))"
  using CalcDate_nonleap [of s] SetDay_nonleap_PB2_held [of t dd] by blast

theorem nonleap_tables_witness:
  "CalcLeapYear (year_long (MainDate main_feb_28)) = 0
   \<and> map_option MainDate (CalcDate main_feb_28)
       = Some \<lparr>day = 1, month = 3, year_short = 17, year_long = 2017\<rparr>
   \<and> map_option MainDate
        (CalcDate (boot_globals\<lparr>MainDate := \<lparr>day = 27, month = 2, year_short = 17,
                                              year_long = 2017\<rparr>\<rparr>))
       = Some \<lparr>day = 28, month = 2, year_short = 17, year_long = 2017\<rparr>
   \<and> map_option (day \<circ> MainDate)
        (CalcDate (boot_globals\<lparr>MainDate := \<lparr>day = 31, month = 12, year_short = 17,
                                              year_long = 2017\<rparr>\<rparr>)) = Some 1
   \<and> map_option (month \<circ> MainDate)
        (CalcDate (boot_globals\<lparr>MainDate := \<lparr>day = 31, month = 12, year_short = 17,
                                              year_long = 2017\<rparr>\<rparr>)) = Some 1
   \<and> CalcLeapYear (year_long (Alarm2Date alarm2_feb_28)) \<noteq> 1
   \<and> map_option Alarm2Date (SetDay Alarm2Date_ptr alarm2_feb_28)
       = Some \<lparr>day = 29, month = 2, year_short = 17, year_long = 2017\<rparr>"
proof -
  let ?f27 = "boot_globals\<lparr>MainDate := \<lparr>day = 27, month = 2, year_short = 17,
                                         year_long = 2017\<rparr>\<rparr>"
  let ?d31 = "boot_globals\<lparr>MainDate := \<lparr>day = 31, month = 12, year_short = 17,
                                         year_long = 2017\<rparr>\<rparr>"
  have a: "CalcLeapYear (year_long (MainDate main_feb_28)) = 0"
          "unat (month (MainDate main_feb_28)) < length DaysInMonth"
          "\<not> day (MainDate main_feb_28) < DaysInMonth ! unat (month (MainDate main_feb_28))"
          "month (MainDate main_feb_28) < 12"
          "MainDate main_feb_28 = \<lparr>day = 28, month = 2, year_short = 17, year_long = 2017\<rparr>"
    by (simp_all add: main_feb_28_def boot_globals_def CalcLeapYear_def DaysInMonth_def)
  have a27: "CalcLeapYear (year_long (MainDate ?f27)) = 0"
          "unat (month (MainDate ?f27)) < length DaysInMonth"
          "day (MainDate ?f27) < DaysInMonth ! unat (month (MainDate ?f27))"
    by (simp_all add: CalcLeapYear_def DaysInMonth_def)
  have a31: "CalcLeapYear (year_long (MainDate ?d31)) = 0"
          "unat (month (MainDate ?d31)) < length DaysInMonth"
          "\<not> day (MainDate ?d31) < DaysInMonth ! unat (month (MainDate ?d31))"
          "\<not> month (MainDate ?d31) < 12"
    by (simp_all add: CalcLeapYear_def DaysInMonth_def)
  have b: "\<forall>n. \<not> bit (PORTB_env alarm2_feb_28 n) 0" "\<forall>n. bit (PORTJ_env alarm2_feb_28 n) 5"
          "CalcLeapYear (year_long (DATE_at Alarm2Date_ptr alarm2_feb_28)) \<noteq> 1"
          "unat (month (DATE_at Alarm2Date_ptr alarm2_feb_28)) < length DaysInMonth"
    by (simp_all add: alarm2_feb_28_def boot_globals_def CalcLeapYear_def DaysInMonth_def)
  have c: "Alarm2Date alarm2_feb_28
             = \<lparr>day = 28, month = 2, year_short = 17, year_long = 2017\<rparr>"
    by (simp add: alarm2_feb_28_def boot_globals_def)
  from nonleap_tables [of main_feb_28 alarm2_feb_28 Alarm2Date_ptr]
       nonleap_tables [of ?f27 alarm2_feb_28 Alarm2Date_ptr]
       nonleap_tables [of ?d31 alarm2_feb_28 Alarm2Date_ptr] a a27 a31 b c
  show ?thesis by (auto simp: DaysInMonth_def DaysInMonthLeap_def)
qed

end
